theory Spec2Isabelle
  imports Complex_Main "HOL-Library.AList"
begin

section \<open>Queen Koba backend: pricing, cart and checkout\<close>

text \<open>
  The repository holds two editions of one Flask backend:
  \<^verbatim>\<open>queenkoba_mongodb.py\<close> (document store) and
  \<^verbatim>\<open>queenkoba_postgresql.py\<close> (relational store). Each route handler is
  embedded as a function from the request and the database to a response and the
  database after the request. Both files use the same handler names, so the
  embedded handlers carry the suffix \<open>_mongo\<close> or \<open>_pg\<close>.
\<close>

subsection \<open>What the handlers take from outside the repository\<close>

text \<open>
  Prices are Python numbers (floats in the seed data and in the \<^verbatim>\<open>Float\<close>
  columns). Their arithmetic is IEEE arithmetic and Python's built-in
  \<^verbatim>\<open>round\<close>; none of it is code of the repository. The embedding keeps the type
  of prices abstract (\<open>'n\<close>) and takes the operations as they are called in the
  source: no law of arithmetic is assumed of them. \<open>ObjectId\<close> is the constructor
  of \<^verbatim>\<open>bson.ObjectId\<close> from a string: \<open>None\<close> stands for the exception
  \<^verbatim>\<open>InvalidId\<close>, and an identifier is represented by the string that
  \<^verbatim>\<open>str\<close> returns for it.
\<close>

type_synonym oid = string
type_synonym datetime = nat

record 'n runtime =
  ObjectId :: "string \<Rightarrow> oid option"
  num_int :: "int \<Rightarrow> 'n"
  num_lit :: "rat \<Rightarrow> 'n"
  num_add :: "'n \<Rightarrow> 'n \<Rightarrow> 'n"
  num_mul :: "'n \<Rightarrow> 'n \<Rightarrow> 'n"
  round2 :: "'n \<Rightarrow> 'n"
  py_str :: "int \<Rightarrow> string"

text \<open>
  \<open>num_int R i\<close> is the Python int \<open>i\<close> used as a number, \<open>num_lit R r\<close> the float
  written as the decimal literal \<open>r\<close>, \<open>num_add\<close> and \<open>num_mul\<close> are \<^verbatim>\<open>+\<close> and
  \<^verbatim>\<open>*\<close>, \<open>round2 R x\<close> is \<^verbatim>\<open>round(x, 2)\<close>, and \<open>py_str R i\<close> is
  \<^verbatim>\<open>str(i)\<close> of an int.
\<close>

datatype exn =
  KeyError | InvalidId | AttributeError | IntegrityError | OverflowError | DataError

subsection \<open>Pricing engine: \<^verbatim>\<open>calculate_prices\<close>\<close>

text \<open>
  The function is the same text in both editions. Its three dictionaries are
  association lists in the order of the source; \<^verbatim>\<open>d[k]\<close> raises
  \<^verbatim>\<open>KeyError\<close> on a missing key, and \<^verbatim>\<open>prices[currency] = ...\<close> is
  \<open>AList.update\<close>, which keeps the order of insertion.
\<close>

record 'n price =
  amount :: 'n
  symbol :: string
  country :: string

definition exchange_rates :: "(string \<times> rat) list" where
  "exchange_rates =
     [(''KES'', 128.5), (''UGX'', 3582.34), (''BIF'', 2850.0), (''CDF'', 2700.0)]"

definition currency_symbols :: "(string \<times> string) list" where
  "currency_symbols =
     [(''KES'', ''KSh''), (''UGX'', ''USh''), (''BIF'', ''FBu''), (''CDF'', ''FC'')]"

definition country_names :: "(string \<times> string) list" where
  "country_names =
     [(''KES'', ''Kenya''), (''UGX'', ''Uganda''), (''BIF'', ''Burundi''),
      (''CDF'', ''DRC Congo'')]"

definition subscript :: "('k \<times> 'v) list \<Rightarrow> 'k \<Rightarrow> exn + 'v" where
  "subscript d k = (case map_of d k of None \<Rightarrow> Inl KeyError | Some v \<Rightarrow> Inr v)"

fun price_loop ::
  "'n runtime \<Rightarrow> 'n \<Rightarrow> (string \<times> rat) list \<Rightarrow> (string \<times> 'n price) list
     \<Rightarrow> exn + (string \<times> 'n price) list" where
  "price_loop R base_price_usd [] prices = Inr prices"
| "price_loop R base_price_usd ((currency, rate) # rest) prices =
     (case subscript currency_symbols currency of
        Inl e \<Rightarrow> Inl e
      | Inr sym_c \<Rightarrow>
          (case subscript country_names currency of
             Inl e \<Rightarrow> Inl e
           | Inr name_c \<Rightarrow>
               price_loop R base_price_usd rest
                 (AList.update currency
                    \<lparr>amount = round2 R (num_mul R base_price_usd (num_lit R rate)),
                     symbol = sym_c, country = name_c\<rparr>
                    prices)))"

definition calculate_prices ::
  "'n runtime \<Rightarrow> 'n \<Rightarrow> exn + (string \<times> 'n price) list" where
  "calculate_prices R base_price_usd = price_loop R base_price_usd exchange_rates []"

subsection \<open>Requests and responses\<close>

text \<open>
  A handler returns a JSON body with a status code. \<open>Success\<close> carries the
  status and the payload of a success body, \<open>Failure\<close> the status and the error
  message. The document-store edition catches every exception and answers 500
  with \<^verbatim>\<open>str(e)\<close>; the relational edition lets an exception escape the
  handler, Flask answers 500 and the session is never committed. In both cases
  the answer is \<open>Failure 500\<close> with the name of the exception, and the database
  is the one before the request.

  The values that a request draws from outside are gathered in \<open>request_env\<close>:
  the clock (every \<^verbatim>\<open>datetime.utcnow()\<close> of one request reads \<open>now\<close>), the
  identifier that the store gives to the row or document the request inserts,
  the text of \<^verbatim>\<open>str(uuid.uuid4())\<close>, the salted hash of \<^verbatim>\<open>bcrypt\<close> and the
  token of \<^verbatim>\<open>create_access_token\<close>.
\<close>

datatype 'a response = Success nat 'a | Failure nat string

fun str_exn :: "exn \<Rightarrow> string" where
  "str_exn KeyError = ''KeyError''"
| "str_exn InvalidId = ''InvalidId''"
| "str_exn AttributeError = ''AttributeError''"
| "str_exn IntegrityError = ''IntegrityError''"
| "str_exn OverflowError = ''OverflowError''"
| "str_exn DataError = ''DataError''"

record request_env =
  now :: datetime
  inserted_id :: oid
  inserted_pk :: int
  uuid4 :: string
  hashpw :: "string \<Rightarrow> string"
  create_access_token :: "string \<Rightarrow> string"

definition upper_char :: "char \<Rightarrow> char" where
  "upper_char c =
     (let n = (of_char c :: nat) in if 97 \<le> n \<and> n \<le> 122 then char_of (n - 32) else c)"

definition order_code :: "request_env \<Rightarrow> string" where
  "order_code rq = map upper_char (take 8 (uuid4 rq))"

text \<open>
  Request bodies are JSON objects. The fields the handlers read are typed as
  the clients send them: identifiers and texts are strings, a quantity is an
  integer, and a field that is absent (or \<^verbatim>\<open>null\<close>) is \<open>None\<close>. The body of a
  registration is any object of string fields, so that fields the handler does
  not read (such as \<^verbatim>\<open>role\<close>) can be present.
\<close>

record add_body =
  body_product_id :: "string option"
  body_quantity :: "int option"

record checkout_body =
  body_shipping_address :: "string option"
  body_payment_method :: "string option"

type_synonym json_object = "string \<Rightarrow> string option"

definition get_or :: "'a option \<Rightarrow> 'a \<Rightarrow> 'a" where
  "get_or v d = (case v of None \<Rightarrow> d | Some x \<Rightarrow> x)"

text \<open>
  A quantity is an unbounded Python int while a handler computes with it. The
  stores hold less: the BSON encoder of the document store writes an int in at
  most 8 bytes and raises \<^verbatim>\<open>OverflowError\<close> beyond, and the column
  \<^verbatim>\<open>cart_items.quantity\<close> of the relational store is a 4-byte
  \<^verbatim>\<open>Integer\<close>, so that a larger value makes the statement fail with
  \<^verbatim>\<open>DataError\<close>.
\<close>

definition bson_int :: "int \<Rightarrow> bool" where
  "bson_int i = (- (2 ^ 63) \<le> i \<and> i < 2 ^ 63)"

definition int4 :: "int \<Rightarrow> bool" where
  "int4 i = (- (2 ^ 31) \<le> i \<and> i < 2 ^ 31)"

definition py_sum :: "'n runtime \<Rightarrow> 'n list \<Rightarrow> 'n" where
  "py_sum R xs = foldl (num_add R) (num_int R 0) xs"

text \<open>
  \<open>py_sum\<close> is the sum the handlers compute: it starts from the int \<^verbatim>\<open>0\<close> and
  adds the terms from left to right.
\<close>

subsection \<open>Document-store edition: data\<close>

text \<open>
  A collection is the list of its documents in insertion order.
  \<^verbatim>\<open>find_one\<close> returns the first document that matches, \<^verbatim>\<open>update_one\<close>
  changes the first document that matches and \<^verbatim>\<open>insert_one\<close> appends.
  Only the fields that the handlers below read or write are kept.
\<close>

record cart_line =
  product_id :: string
  quantity :: int
  added_at :: datetime

record 'n product_doc =
  p_id :: oid
  p_name :: string
  base_price_usd :: 'n

record user_doc =
  u_id :: oid
  username :: string
  email :: string
  password_hash :: string
  user_country :: string
  preferred_currency :: string
  created_at :: datetime
  updated_at :: datetime
  role :: string
  cart :: "cart_line list"
  orders :: "string list"

record 'n order_item =
  oi_product_id :: string
  product_name :: string
  oi_quantity :: int
  price_per_item :: 'n
  item_total :: 'n

record 'n order_doc =
  o_id :: oid
  order_id :: string
  user_id :: string
  items :: "'n order_item list"
  total_usd :: 'n
  shipping_address :: string
  payment_method :: string
  payment_status :: string
  order_status :: string
  o_created_at :: datetime
  o_updated_at :: datetime

record 'n mongo =
  db_products :: "'n product_doc list"
  db_users :: "user_doc list"
  db_orders :: "'n order_doc list"

definition find_one :: "('a \<Rightarrow> bool) \<Rightarrow> 'a list \<Rightarrow> 'a option" where
  "find_one P xs = List.find P xs"

fun update_one :: "('a \<Rightarrow> bool) \<Rightarrow> ('a \<Rightarrow> 'a) \<Rightarrow> 'a list \<Rightarrow> 'a list" where
  "update_one P f [] = []"
| "update_one P f (x # xs) = (if P x then f x # xs else x # update_one P f xs)"

definition insert_one :: "'a \<Rightarrow> 'a list \<Rightarrow> 'a list" where
  "insert_one x xs = xs @ [x]"

subsection \<open>Document-store edition: \<^verbatim>\<open>register\<close>\<close>

definition falsy :: "string option \<Rightarrow> bool" where
  "falsy v = (case v of None \<Rightarrow> True | Some s \<Rightarrow> s = [])"

fun first_missing :: "json_object \<Rightarrow> string list \<Rightarrow> string option" where
  "first_missing data [] = None"
| "first_missing data (field # required_fields) =
     (if falsy (data field) then Some field else first_missing data required_fields)"

record user_response =
  r_id :: string
  r_username :: string
  r_email :: string
  r_country :: string
  r_preferred_currency :: string
  r_role :: string

record register_reply =
  access_token :: string
  r_user :: user_response

definition register_mongo ::
  "request_env \<Rightarrow> json_object \<Rightarrow> 'n mongo \<Rightarrow> register_reply response \<times> 'n mongo" where
  "register_mongo rq data db =
     (case first_missing data [''username'', ''email'', ''password''] of
        Some field \<Rightarrow> (Failure 400 (field @ '' is required''), db)
      | None \<Rightarrow>
          (case (data ''username'', data ''email'', data ''password'') of
             (Some uname, Some mail, Some pw) \<Rightarrow>
               if find_one (\<lambda>u. email u = mail) (db_users db) \<noteq> None
               then (Failure 400 ''Email already registered'', db)
               else if find_one (\<lambda>u. username u = uname) (db_users db) \<noteq> None
               then (Failure 400 ''Username already taken'', db)
               else
                 (let user =
                        \<lparr>u_id = inserted_id rq, username = uname, email = mail,
                         password_hash = hashpw rq pw,
                         user_country = get_or (data ''country'') ''Kenya'',
                         preferred_currency = get_or (data ''preferred_currency'') ''KES'',
                         created_at = now rq, updated_at = now rq,
                         role = ''customer'', cart = [], orders = []\<rparr>;
                      new_id = inserted_id rq
                  in (Success 201
                        \<lparr>access_token = create_access_token rq new_id,
                         r_user =
                           \<lparr>r_id = new_id, r_username = username user,
                            r_email = email user, r_country = user_country user,
                            r_preferred_currency = preferred_currency user,
                            r_role = role user\<rparr>\<rparr>,
                      db\<lparr>db_users := insert_one user (db_users db)\<rparr>))
           | _ \<Rightarrow> (Failure 500 (str_exn KeyError), db)))"

subsection \<open>Document-store edition: cart\<close>

text \<open>
  \<open>bump_line\<close> is the loop of \<^verbatim>\<open>add_to_cart\<close> over the cart: it adds the
  quantity to the first line of the product and stops there; the flag is
  \<^verbatim>\<open>product_in_cart\<close>.
\<close>

fun bump_line :: "string \<Rightarrow> int \<Rightarrow> cart_line list \<Rightarrow> cart_line list \<times> bool" where
  "bump_line pid q [] = ([], False)"
| "bump_line pid q (item # rest) =
     (if product_id item = pid
      then (item\<lparr>quantity := quantity item + q\<rparr> # rest, True)
      else (case bump_line pid q rest of
              (rest', product_in_cart) \<Rightarrow> (item # rest', product_in_cart)))"

text \<open>
  \<^verbatim>\<open>update_one\<close> encodes the cart it is given; \<open>storable_cart\<close> holds when
  the encoder accepts every quantity of it. \<^verbatim>\<open>add_to_cart\<close> is the one
  handler that writes a quantity it has computed; the carts that
  \<^verbatim>\<open>remove_from_cart\<close> and \<^verbatim>\<open>checkout\<close> write hold only lines read from
  the store, or none.
\<close>

definition storable_cart :: "cart_line list \<Rightarrow> bool" where
  "storable_cart lines = list_all (\<lambda>item. bson_int (quantity item)) lines"

definition add_to_cart_mongo ::
  "'n runtime \<Rightarrow> request_env \<Rightarrow> string \<Rightarrow> add_body \<Rightarrow> 'n mongo
     \<Rightarrow> nat response \<times> 'n mongo" where
  "add_to_cart_mongo R rq uid data db =
     (case (body_product_id data, body_quantity data) of
        (Some pid, Some q) \<Rightarrow>
          if pid = [] \<or> q = 0
          then (Failure 400 ''Product ID and quantity required'', db)
          else
            (case ObjectId R pid of
               None \<Rightarrow> (Failure 500 (str_exn InvalidId), db)
             | Some pk \<Rightarrow>
                 (case find_one (\<lambda>p. p_id p = pk) (db_products db) of
                    None \<Rightarrow> (Failure 404 ''Product not found'', db)
                  | Some product \<Rightarrow>
                      (case ObjectId R uid of
                         None \<Rightarrow> (Failure 500 (str_exn InvalidId), db)
                       | Some uk \<Rightarrow>
                           (case find_one (\<lambda>u. u_id u = uk) (db_users db) of
                              None \<Rightarrow> (Failure 404 ''User not found'', db)
                            | Some user \<Rightarrow>
                                (case bump_line pid q (cart user) of
                                   (cart1, product_in_cart) \<Rightarrow>
                                     (let cart2 =
                                            (if \<not> product_in_cart
                                             then cart1 @
                                               [\<lparr>product_id = pid, quantity = q,
                                                 added_at = now rq\<rparr>]
                                             else cart1)
                                      in if \<not> storable_cart cart2
                                         then (Failure 500 (str_exn OverflowError), db)
                                         else
                                           (Success 200 (length cart2),
                                            db\<lparr>db_users :=
                                                 update_one (\<lambda>u. u_id u = uk)
                                                   (\<lambda>u. u\<lparr>cart := cart2,
                                                           updated_at := now rq\<rparr>)
                                                   (db_users db)\<rparr>)))))))
      | _ \<Rightarrow> (Failure 400 ''Product ID and quantity required'', db))"

definition remove_from_cart_mongo ::
  "'n runtime \<Rightarrow> request_env \<Rightarrow> string \<Rightarrow> string \<Rightarrow> 'n mongo
     \<Rightarrow> nat response \<times> 'n mongo" where
  "remove_from_cart_mongo R rq uid pid db =
     (case ObjectId R uid of
        None \<Rightarrow> (Failure 500 (str_exn InvalidId), db)
      | Some uk \<Rightarrow>
          (case find_one (\<lambda>u. u_id u = uk) (db_users db) of
             None \<Rightarrow> (Failure 404 ''User not found'', db)
           | Some user \<Rightarrow>
               (let new_cart = filter (\<lambda>item. product_id item \<noteq> pid) (cart user)
                in (Success 200 (length new_cart),
                    db\<lparr>db_users :=
                         update_one (\<lambda>u. u_id u = uk)
                           (\<lambda>u. u\<lparr>cart := new_cart, updated_at := now rq\<rparr>)
                           (db_users db)\<rparr>))))"

text \<open>
  \<^verbatim>\<open>get_cart\<close> writes the name and the price of the product into every line
  it can resolve and adds that line to the total; a line whose product is not
  found stays in the answer as it is.
\<close>

record 'n cart_entry =
  entry_line :: cart_line
  entry_product_name :: "string option"
  entry_product_price :: "'n option"

record 'n cart_reply =
  r_cart :: "'n cart_entry list"
  usd :: 'n
  local_total :: 'n
  currency :: string
  r_symbol :: string



subsection \<open>Document-store edition: \<^verbatim>\<open>checkout\<close>\<close>

record 'n checkout_reply =
  r_order_id :: string
  order_number :: string
  r_total :: 'n
  items_count :: nat

fun order_loop ::
  "'n runtime \<Rightarrow> 'n product_doc list \<Rightarrow> cart_line list \<Rightarrow> 'n \<Rightarrow> 'n order_item list
     \<Rightarrow> exn + ('n \<times> 'n order_item list)" where
  "order_loop R ps [] acc order_items = Inr (acc, order_items)"
| "order_loop R ps (item # rest) acc order_items =
     (case ObjectId R (product_id item) of
        None \<Rightarrow> Inl InvalidId
      | Some pk \<Rightarrow>
          (case find_one (\<lambda>p. p_id p = pk) ps of
             None \<Rightarrow> order_loop R ps rest acc order_items
           | Some product \<Rightarrow>
               (let line_total =
                      num_mul R (base_price_usd product) (num_int R (quantity item))
                in order_loop R ps rest (num_add R acc line_total)
                     (order_items @
                        [\<lparr>oi_product_id = p_id product, product_name = p_name product,
                          oi_quantity = quantity item,
                          price_per_item = base_price_usd product,
                          item_total = line_total\<rparr>]))))"

definition checkout_mongo ::
  "'n runtime \<Rightarrow> request_env \<Rightarrow> string \<Rightarrow> checkout_body \<Rightarrow> 'n mongo
     \<Rightarrow> 'n checkout_reply response \<times> 'n mongo" where
  "checkout_mongo R rq uid data db =
     (case ObjectId R uid of
        None \<Rightarrow> (Failure 500 (str_exn InvalidId), db)
      | Some uk \<Rightarrow>
          (case find_one (\<lambda>u. u_id u = uk) (db_users db) of
             None \<Rightarrow> (Failure 404 ''User not found'', db)
           | Some user \<Rightarrow>
               if length (cart user) = 0 then (Failure 400 ''Cart is empty'', db)
               else
                 (case order_loop R (db_products db) (cart user) (num_int R 0) [] of
                    Inl e \<Rightarrow> (Failure 500 (str_exn e), db)
                  | Inr (total_sum, order_items) \<Rightarrow>
                      (let order =
                             \<lparr>o_id = inserted_id rq, order_id = order_code rq,
                              user_id = uid, items = order_items, total_usd = total_sum,
                              shipping_address =
                                get_or (body_shipping_address data) ''{}'',
                              payment_method = get_or (body_payment_method data) ''card'',
                              payment_status = ''pending'',
                              order_status = ''processing'',
                              o_created_at = now rq, o_updated_at = now rq\<rparr>;
                           db1 = db\<lparr>db_orders := insert_one order (db_orders db)\<rparr>;
                           db2 = db1\<lparr>db_users :=
                                  update_one (\<lambda>u. u_id u = uk)
                                    (\<lambda>u. u\<lparr>cart := [], updated_at := now rq\<rparr>)
                                    (db_users db1)\<rparr>;
                           user_orders = orders user @ [inserted_id rq];
                           db3 = db2\<lparr>db_users :=
                                  update_one (\<lambda>u. u_id u = uk)
                                    (\<lambda>u. u\<lparr>orders := user_orders\<rparr>)
                                    (db_users db2)\<rparr>
                       in (Success 200
                             \<lparr>r_order_id = order_id order,
                              order_number = inserted_id rq, r_total = total_sum,
                              items_count = length order_items\<rparr>,
                           db3)))))"

subsection \<open>Relational edition: data\<close>

text \<open>
  A table is the list of its rows. The identity of the caller is the integer
  \<^verbatim>\<open>int(get_jwt_identity())\<close>. A row object that a query returns with
  \<^verbatim>\<open>first()\<close> is the first row that satisfies the filter, and an assignment to
  an attribute of that object changes that row at the commit. The relationship
  \<^verbatim>\<open>item.product\<close> is the product whose key is \<^verbatim>\<open>item.product_id\<close>, or
  \<^verbatim>\<open>None\<close>; \<^verbatim>\<open>user.orders\<close> is the list of the orders whose
  \<^verbatim>\<open>user_id\<close> is the key of the user. At the flush the store checks the
  constraints of the schema that the handlers can violate: the foreign keys
  \<^verbatim>\<open>cart_items.user_id\<close> and \<^verbatim>\<open>orders.user_id\<close>, and the uniqueness of
  \<^verbatim>\<open>orders.order_id\<close> and of \<^verbatim>\<open>users.email\<close>; a violation raises
  \<^verbatim>\<open>IntegrityError\<close>. A quantity that does not fit the 4-byte column is
  refused when the row is written, before the keys are checked.
\<close>

record pg_user =
  usr_id :: int
  usr_name :: "string option"
  usr_username :: "string option"
  usr_email :: string
  usr_phone :: "string option"
  usr_password_hash :: string
  usr_role :: string
  usr_country :: string
  usr_preferred_currency :: string
  usr_status :: string
  usr_created_at :: datetime
  usr_updated_at :: datetime

record 'n pg_product =
  prd_id :: int
  prd_name :: string
  prd_base_price_usd :: 'n

record pg_cart_item =
  ci_id :: int
  ci_user_id :: int
  ci_product_id :: int
  ci_quantity :: int
  ci_added_at :: datetime

record 'n pg_order =
  ord_id :: int
  ord_order_id :: string
  ord_user_id :: int
  ord_items :: "'n order_item list"
  ord_total_usd :: 'n
  ord_shipping_address :: string
  ord_payment_method :: string
  ord_payment_status :: string
  ord_order_status :: string
  ord_created_at :: datetime
  ord_updated_at :: datetime

record 'n pg =
  t_users :: "pg_user list"
  t_products :: "'n pg_product list"
  t_cart_items :: "pg_cart_item list"
  t_orders :: "'n pg_order list"

definition item_product :: "'n pg \<Rightarrow> pg_cart_item \<Rightarrow> 'n pg_product option" where
  "item_product db item = find_one (\<lambda>p. prd_id p = ci_product_id item) (t_products db)"

definition user_orders_pg :: "'n pg \<Rightarrow> int \<Rightarrow> 'n pg_order list" where
  "user_orders_pg db uid = filter (\<lambda>ord. ord_user_id ord = uid) (t_orders db)"

subsection \<open>Relational edition: \<^verbatim>\<open>signup\<close>\<close>

record signup_reply =
  s_token :: string
  s_id :: string
  s_name :: string
  s_email :: string
  s_phone :: string

definition signup_pg ::
  "'n runtime \<Rightarrow> request_env \<Rightarrow> json_object \<Rightarrow> 'n pg \<Rightarrow> signup_reply response \<times> 'n pg" where
  "signup_pg R rq data db =
     (case (data ''email'', data ''password'', data ''name'', data ''phone'') of
        (Some mail, Some pw, Some nm, Some ph) \<Rightarrow>
          if find_one (\<lambda>u. usr_email u = mail) (t_users db) \<noteq> None
          then (Failure 400 ''Email already registered'', db)
          else
            (let user =
                   \<lparr>usr_id = inserted_pk rq, usr_name = Some nm, usr_username = None,
                    usr_email = mail, usr_phone = Some ph,
                    usr_password_hash = hashpw rq pw, usr_role = ''customer'',
                    usr_country = ''Kenya'', usr_preferred_currency = ''KES'',
                    usr_status = ''active'', usr_created_at = now rq,
                    usr_updated_at = now rq\<rparr>
             in (Success 201
                   \<lparr>s_token = create_access_token rq (py_str R (usr_id user)),
                    s_id = py_str R (usr_id user), s_name = nm, s_email = mail,
                    s_phone = ph\<rparr>,
                 db\<lparr>t_users := insert_one user (t_users db)\<rparr>))
      | _ \<Rightarrow> (Failure 400 ''Name, email, phone and password required'', db))"

subsection \<open>Relational edition: cart and \<^verbatim>\<open>checkout\<close>\<close>

record pg_add_body =
  pg_body_product_id :: "int option"
  pg_body_quantity :: "int option"

definition add_to_cart_pg ::
  "request_env \<Rightarrow> int \<Rightarrow> pg_add_body \<Rightarrow> 'n pg \<Rightarrow> unit response \<times> 'n pg" where
  "add_to_cart_pg rq uid data db =
     (case pg_body_product_id data of
        None \<Rightarrow> (Failure 500 (str_exn KeyError), db)
      | Some pid \<Rightarrow>
          (case find_one (\<lambda>p. prd_id p = pid) (t_products db) of
             None \<Rightarrow> (Failure 404 ''Not Found'', db)
           | Some product \<Rightarrow>
               (case find_one (\<lambda>i. ci_user_id i = uid \<and> ci_product_id i = pid)
                       (t_cart_items db) of
                  Some cart_item \<Rightarrow>
                    (case pg_body_quantity data of
                       None \<Rightarrow> (Failure 500 (str_exn KeyError), db)
                     | Some q \<Rightarrow>
                         if \<not> int4 (ci_quantity cart_item + q)
                         then (Failure 500 (str_exn DataError), db)
                         else
                           (Success 200 (),
                            db\<lparr>t_cart_items :=
                                 update_one (\<lambda>i. ci_user_id i = uid \<and> ci_product_id i = pid)
                                   (\<lambda>i. i\<lparr>ci_quantity := ci_quantity i + q\<rparr>)
                                   (t_cart_items db)\<rparr>))
                | None \<Rightarrow>
                    (case pg_body_quantity data of
                       None \<Rightarrow> (Failure 500 (str_exn KeyError), db)
                     | Some q \<Rightarrow>
                         if \<not> int4 q then (Failure 500 (str_exn DataError), db)
                         else if find_one (\<lambda>u. usr_id u = uid) (t_users db) = None
                         then (Failure 500 (str_exn IntegrityError), db)
                         else
                           (Success 200 (),
                            db\<lparr>t_cart_items :=
                                 insert_one
                                   \<lparr>ci_id = inserted_pk rq, ci_user_id = uid,
                                    ci_product_id = pid, ci_quantity = q,
                                    ci_added_at = now rq\<rparr>
                                   (t_cart_items db)\<rparr>)))))"

record 'n pg_checkout_reply =
  pr_order_id :: string
  pr_total :: 'n

fun order_loop_pg ::
  "'n runtime \<Rightarrow> 'n pg \<Rightarrow> pg_cart_item list \<Rightarrow> 'n \<Rightarrow> 'n order_item list
     \<Rightarrow> exn + ('n \<times> 'n order_item list)" where
  "order_loop_pg R db [] acc order_items = Inr (acc, order_items)"
| "order_loop_pg R db (item # rest) acc order_items =
     (case item_product db item of
        None \<Rightarrow> Inl AttributeError
      | Some product \<Rightarrow>
          (let line_total =
                 num_mul R (prd_base_price_usd product) (num_int R (ci_quantity item))
           in order_loop_pg R db rest (num_add R acc line_total)
                (order_items @
                   [\<lparr>oi_product_id = py_str R (ci_product_id item),
                     product_name = prd_name product, oi_quantity = ci_quantity item,
                     price_per_item = prd_base_price_usd product,
                     item_total = line_total\<rparr>])))"

definition checkout_pg ::
  "'n runtime \<Rightarrow> request_env \<Rightarrow> int \<Rightarrow> checkout_body \<Rightarrow> 'n pg
     \<Rightarrow> 'n pg_checkout_reply response \<times> 'n pg" where
  "checkout_pg R rq uid data db =
     (let cart_items = filter (\<lambda>i. ci_user_id i = uid) (t_cart_items db)
      in if cart_items = [] then (Failure 400 ''Cart is empty'', db)
         else
           (case order_loop_pg R db cart_items (num_int R 0) [] of
              Inl e \<Rightarrow> (Failure 500 (str_exn e), db)
            | Inr (total_sum, order_items) \<Rightarrow>
                (let order =
                       \<lparr>ord_id = inserted_pk rq, ord_order_id = order_code rq,
                        ord_user_id = uid, ord_items = order_items,
                        ord_total_usd = total_sum,
                        ord_shipping_address =
                          get_or (body_shipping_address data) ''{}'',
                        ord_payment_method = get_or (body_payment_method data) ''card'',
                        ord_payment_status = ''pending'',
                        ord_order_status = ''processing'',
                        ord_created_at = now rq, ord_updated_at = now rq\<rparr>
                 in if find_one (\<lambda>u. usr_id u = uid) (t_users db) = None
                       \<or> find_one (\<lambda>ord. ord_order_id ord = order_code rq) (t_orders db)
                           \<noteq> None
                    then (Failure 500 (str_exn IntegrityError), db)
                    else
                      (Success 200
                         \<lparr>pr_order_id = ord_order_id order, pr_total = total_sum\<rparr>,
                       db\<lparr>t_orders := insert_one order (t_orders db),
                          t_cart_items :=
                            filter (\<lambda>i. ci_user_id i \<noteq> uid) (t_cart_items db)\<rparr>))))"






subsection \<open>The lines of a cart that resolve\<close>

text \<open>
  These definitions follow the words of the specification, not the loops of the
  handlers: a cart line resolves when its product reference names a product of
  the catalogue at the time of the request; its snapshot holds the product id,
  the name, the quantity, the unit price and the line total, which is the unit
  price times the quantity.
\<close>

definition resolve_line ::
  "'n runtime \<Rightarrow> 'n product_doc list \<Rightarrow> cart_line \<Rightarrow> 'n product_doc option" where
  "resolve_line R ps l =
     (case ObjectId R (product_id l) of
        None \<Rightarrow> None
      | Some pk \<Rightarrow> find_one (\<lambda>p. p_id p = pk) ps)"

definition snapshot :: "'n runtime \<Rightarrow> cart_line \<Rightarrow> 'n product_doc \<Rightarrow> 'n order_item" where
  "snapshot R l p =
     \<lparr>oi_product_id = p_id p, product_name = p_name p, oi_quantity = quantity l,
      price_per_item = base_price_usd p,
      item_total = num_mul R (base_price_usd p) (num_int R (quantity l))\<rparr>"

definition resolved_items ::
  "'n runtime \<Rightarrow> 'n product_doc list \<Rightarrow> cart_line list \<Rightarrow> 'n order_item list" where
  "resolved_items R ps lines =
     List.map_filter (\<lambda>l. map_option (snapshot R l) (resolve_line R ps l)) lines"

definition snapshot_pg ::
  "'n runtime \<Rightarrow> pg_cart_item \<Rightarrow> 'n pg_product \<Rightarrow> 'n order_item" where
  "snapshot_pg R i p =
     \<lparr>oi_product_id = py_str R (ci_product_id i), product_name = prd_name p,
      oi_quantity = ci_quantity i, price_per_item = prd_base_price_usd p,
      item_total = num_mul R (prd_base_price_usd p) (num_int R (ci_quantity i))\<rparr>"

definition resolved_items_pg ::
  "'n runtime \<Rightarrow> 'n pg \<Rightarrow> pg_cart_item list \<Rightarrow> 'n order_item list" where
  "resolved_items_pg R db lines =
     List.map_filter (\<lambda>i. map_option (snapshot_pg R i) (item_product db i)) lines"

definition line_totals :: "'n runtime \<Rightarrow> 'n order_item list \<Rightarrow> 'n list" where
  "line_totals R its = map (\<lambda>i. num_mul R (price_per_item i) (num_int R (oi_quantity i))) its"

text \<open>
  \<^verbatim>\<open>add_to_cart\<close> stores a product reference only after \<^verbatim>\<open>ObjectId\<close> has
  accepted it, so the references of a cart that the handlers have built are
  well formed.
\<close>

definition well_formed_ids :: "'n runtime \<Rightarrow> cart_line list \<Rightarrow> bool" where
  "well_formed_ids R lines = list_all (\<lambda>l. ObjectId R (product_id l) \<noteq> None) lines"

text \<open>
  The cart as the specification describes it: adding a product that has a line
  adds the quantity to that line, and adding a product that has none appends a
  line with the time of the request.
\<close>

fun merge_line :: "string \<Rightarrow> int \<Rightarrow> datetime \<Rightarrow> cart_line list \<Rightarrow> cart_line list" where
  "merge_line pid q t [] = [\<lparr>product_id = pid, quantity = q, added_at = t\<rparr>]"
| "merge_line pid q t (l # ls) =
     (if product_id l = pid then l\<lparr>quantity := quantity l + q\<rparr> # ls
      else l # merge_line pid q t ls)"


fun merge_row ::
  "int \<Rightarrow> int \<Rightarrow> int \<Rightarrow> request_env \<Rightarrow> pg_cart_item list \<Rightarrow> pg_cart_item list" where
  "merge_row uid pid q rq [] =
     [\<lparr>ci_id = inserted_pk rq, ci_user_id = uid, ci_product_id = pid, ci_quantity = q,
       ci_added_at = now rq\<rparr>]"
| "merge_row uid pid q rq (i # rows) =
     (if ci_user_id i = uid \<and> ci_product_id i = pid
      then i\<lparr>ci_quantity := ci_quantity i + q\<rparr> # rows
      else i # merge_row uid pid q rq rows)"

definition cart_quantity_pg :: "'n pg \<Rightarrow> int \<Rightarrow> int \<Rightarrow> int" where
  "cart_quantity_pg db uid pid =
     (case find_one (\<lambda>i. ci_user_id i = uid \<and> ci_product_id i = pid) (t_cart_items db) of
        None \<Rightarrow> 0
      | Some i \<Rightarrow> ci_quantity i)"

text \<open>
  The foreign keys that the schema declares on \<^verbatim>\<open>cart_items\<close>
  (\<^verbatim>\<open>user_id\<close> and \<^verbatim>\<open>product_id\<close>, both \<^verbatim>\<open>nullable=False\<close>): the product
  and the user of every row exist. The database checks them at every commit,
  so a write that would break them, such as the deletion of a product that a
  cart line references, fails and is rolled back. The handlers embedded here
  preserve them.
\<close>

definition foreign_keys :: "'n pg \<Rightarrow> bool" where
  "foreign_keys db =
     list_all
       (\<lambda>i. item_product db i \<noteq> None
            \<and> find_one (\<lambda>u. usr_id u = ci_user_id i) (t_users db) \<noteq> None)
       (t_cart_items db)"

definition carts_well_formed :: "'n runtime \<Rightarrow> 'n mongo \<Rightarrow> bool" where
  "carts_well_formed R db = list_all (\<lambda>u. well_formed_ids R (cart u)) (db_users db)"


definition user_cart :: "'n runtime \<Rightarrow> 'n mongo \<Rightarrow> string \<Rightarrow> cart_line list option" where
  "user_cart R db uid =
     (case ObjectId R uid of
        None \<Rightarrow> None
      | Some uk \<Rightarrow> map_option cart (find_one (\<lambda>u. u_id u = uk) (db_users db)))"

definition cart_pg :: "'n pg \<Rightarrow> int \<Rightarrow> pg_cart_item list" where
  "cart_pg db uid = filter (\<lambda>i. ci_user_id i = uid) (t_cart_items db)"

definition user_order_refs :: "'n runtime \<Rightarrow> 'n mongo \<Rightarrow> string \<Rightarrow> string list option" where
  "user_order_refs R db uid =
     (case ObjectId R uid of
        None \<Rightarrow> None
      | Some uk \<Rightarrow> map_option orders (find_one (\<lambda>u. u_id u = uk) (db_users db)))"

definition user_updated_at :: "'n runtime \<Rightarrow> 'n mongo \<Rightarrow> string \<Rightarrow> datetime option" where
  "user_updated_at R db uid =
     (case ObjectId R uid of
        None \<Rightarrow> None
      | Some uk \<Rightarrow> map_option updated_at (find_one (\<lambda>u. u_id u = uk) (db_users db)))"

subsection \<open>Example data\<close>

text \<open>
  An instance of the runtime for the examples: exact rational arithmetic,
  rounding to two decimals with halves up, identifiers of 24 hexadecimal digits
  read without regard to case, and decimal numerals.
\<close>

definition is_hex :: "char \<Rightarrow> bool" where
  "is_hex c = (c \<in> set ''0123456789abcdefABCDEF'')"

definition lower_char :: "char \<Rightarrow> char" where
  "lower_char c =
     (let n = (of_char c :: nat) in if 65 \<le> n \<and> n \<le> 90 then char_of (n + 32) else c)"

definition hex_oid :: "string \<Rightarrow> oid option" where
  "hex_oid s = (if length s = 24 \<and> list_all is_hex s then Some (map lower_char s) else None)"

function str_nat :: "nat \<Rightarrow> string" where
  "str_nat n =
     (if n < 10 then [char_of (48 + n)] else str_nat (n div 10) @ [char_of (48 + n mod 10)])"
  by pat_completeness auto
termination
  by (relation "measure id") auto

definition str_int :: "int \<Rightarrow> string" where
  "str_int i = (if i < 0 then CHR ''-'' # str_nat (nat (- i)) else str_nat (nat i))"

definition example_runtime :: "rat runtime" where
  "example_runtime =
     \<lparr>ObjectId = hex_oid, num_int = rat_of_int, num_lit = id, num_add = (+),
      num_mul = (*), round2 = (\<lambda>x. rat_of_int \<lfloor>x * 100 + 1 / 2\<rfloor> / 100),
      py_str = str_int\<rparr>"

definition example_request :: request_env where
  "example_request =
     \<lparr>now = 1000, inserted_id = ''65a000000000000000000099'', inserted_pk = 99,
      uuid4 = ''3f2b8c1e-7a4d-4c9b-9e0f-1a2b3c4d5e6f'',
      hashpw = (\<lambda>pw. ''$2b$'' @ pw), create_access_token = (\<lambda>i. ''jwt:'' @ i)\<rparr>"

definition later_request :: request_env where
  "later_request = example_request\<lparr>now := 2000, inserted_pk := 100\<rparr>"

definition product_a :: "rat product_doc" where
  "product_a = \<lparr>p_id = ''65a000000000000000000001'', p_name = ''A'', base_price_usd = 10\<rparr>"

definition product_b :: "rat product_doc" where
  "product_b = \<lparr>p_id = ''65a000000000000000000002'', p_name = ''B'', base_price_usd = 5\<rparr>"

definition customer :: "cart_line list \<Rightarrow> user_doc" where
  "customer lines =
     \<lparr>u_id = ''65a000000000000000000010'', username = ''amina'',
      email = ''amina@example.com'', password_hash = ''$2b$x'',
      user_country = ''Kenya'', preferred_currency = ''KES'', created_at = 1,
      updated_at = 1, role = ''customer'', cart = lines, orders = []\<rparr>"

definition example_db :: "cart_line list \<Rightarrow> rat mongo" where
  "example_db lines =
     \<lparr>db_products = [product_a, product_b], db_users = [customer lines], db_orders = []\<rparr>"

definition line_a :: cart_line where
  "line_a = \<lparr>product_id = ''65a000000000000000000001'', quantity = 2, added_at = 5\<rparr>"

definition line_b :: cart_line where
  "line_b = \<lparr>product_id = ''65a000000000000000000002'', quantity = 1, added_at = 6\<rparr>"

definition line_gone :: cart_line where
  "line_gone = \<lparr>product_id = ''65a000000000000000000003'', quantity = 4, added_at = 7\<rparr>"

definition add_a :: "int \<Rightarrow> add_body" where
  "add_a q = \<lparr>body_product_id = Some ''65a000000000000000000001'', body_quantity = Some q\<rparr>"


definition pg_add_a :: "int \<Rightarrow> pg_add_body" where
  "pg_add_a q = \<lparr>pg_body_product_id = Some 1, pg_body_quantity = Some q\<rparr>"

definition add_gone :: add_body where
  "add_gone = \<lparr>body_product_id = Some ''65a000000000000000000003'', body_quantity = Some 1\<rparr>"

definition pg_add_gone :: pg_add_body where
  "pg_add_gone = \<lparr>pg_body_product_id = Some 3, pg_body_quantity = Some 1\<rparr>"

definition registration :: json_object where
  "registration =
     [''username'' \<mapsto> ''zawadi'', ''email'' \<mapsto> ''zawadi@example.com'',
      ''password'' \<mapsto> ''secret'', ''name'' \<mapsto> ''Zawadi'', ''phone'' \<mapsto> ''0711'',
      ''role'' \<mapsto> ''admin'']"

definition empty_body :: checkout_body where
  "empty_body = \<lparr>body_shipping_address = None, body_payment_method = None\<rparr>"

definition pg_customer :: pg_user where
  "pg_customer =
     \<lparr>usr_id = 1, usr_name = Some ''Amina'', usr_username = None,
      usr_email = ''amina@example.com'', usr_phone = Some ''0700'',
      usr_password_hash = ''$2b$x'', usr_role = ''customer'', usr_country = ''Kenya'',
      usr_preferred_currency = ''KES'', usr_status = ''active'', usr_created_at = 1,
      usr_updated_at = 1\<rparr>"

definition example_pg :: "pg_cart_item list \<Rightarrow> rat pg" where
  "example_pg lines =
     \<lparr>t_users = [pg_customer],
      t_products =
        [\<lparr>prd_id = 1, prd_name = ''A'', prd_base_price_usd = 10\<rparr>,
         \<lparr>prd_id = 2, prd_name = ''B'', prd_base_price_usd = 5\<rparr>],
      t_cart_items = lines, t_orders = []\<rparr>"

definition pg_line_a :: pg_cart_item where
  "pg_line_a =
     \<lparr>ci_id = 1, ci_user_id = 1, ci_product_id = 1, ci_quantity = 2, ci_added_at = 5\<rparr>"

definition pg_line_b :: pg_cart_item where
  "pg_line_b =
     \<lparr>ci_id = 2, ci_user_id = 1, ci_product_id = 2, ci_quantity = 1, ci_added_at = 6\<rparr>"

definition pg_line_gone :: pg_cart_item where
  "pg_line_gone =
     \<lparr>ci_id = 3, ci_user_id = 1, ci_product_id = 3, ci_quantity = 4, ci_added_at = 7\<rparr>"

section \<open>Properties\<close>

subsection \<open>Collections and loops\<close>

lemma find_one_update_one:
  "(\<And>x. P (f x) = P x) \<Longrightarrow> find_one P (update_one P f xs) = map_option f (find_one P xs)"
  by (induction xs) (simp_all add: find_one_def)

lemma update_one_twice:
  "(\<And>x. P (f x) = P x) \<Longrightarrow>
     update_one P g (update_one P f xs) = update_one P (\<lambda>x. g (f x)) xs"
  by (induction xs) simp_all

lemma order_loop_char:
  "order_loop R ps lines acc its =
     (if well_formed_ids R lines
      then Inr (foldl (num_add R) acc (map item_total (resolved_items R ps lines)),
                its @ resolved_items R ps lines)
      else Inl InvalidId)"
proof (induction lines arbitrary: acc its)
  case Nil
  show ?case by (simp add: well_formed_ids_def resolved_items_def)
next
  case (Cons l lines)
  show ?case
  proof (cases "ObjectId R (product_id l)")
    case None
    then show ?thesis by (simp add: well_formed_ids_def)
  next
    case (Some pk)
    show ?thesis
    proof (cases "find_one (\<lambda>p. p_id p = pk) ps")
      case None
      with Some Cons show ?thesis
        by (simp add: well_formed_ids_def resolved_items_def resolve_line_def)
    next
      case (Some p)
      with \<open>ObjectId R (product_id l) = Some pk\<close> Cons show ?thesis
        by (simp add: well_formed_ids_def resolved_items_def resolve_line_def
            snapshot_def Let_def)
    qed
  qed
qed

lemma item_total_resolved:
  "map item_total (resolved_items R ps lines) = line_totals R (resolved_items R ps lines)"
  by (induction lines)
    (simp_all add: resolved_items_def line_totals_def snapshot_def split: option.splits)

lemma checkout_mongo_run:
  assumes "ObjectId R uid = Some uk"
    and "find_one (\<lambda>u. u_id u = uk) (db_users db) = Some user"
    and "cart user \<noteq> []"
    and "well_formed_ids R (cart user)"
  shows "checkout_mongo R rq uid data db =
     (Success 200
        \<lparr>r_order_id = order_code rq, order_number = inserted_id rq,
         r_total = py_sum R (line_totals R (resolved_items R (db_products db) (cart user))),
         items_count = length (resolved_items R (db_products db) (cart user))\<rparr>,
      db\<lparr>db_orders := db_orders db @
            [\<lparr>o_id = inserted_id rq, order_id = order_code rq, user_id = uid,
              items = resolved_items R (db_products db) (cart user),
              total_usd =
                py_sum R (line_totals R (resolved_items R (db_products db) (cart user))),
              shipping_address = get_or (body_shipping_address data) ''{}'',
              payment_method = get_or (body_payment_method data) ''card'',
              payment_status = ''pending'', order_status = ''processing'',
              o_created_at = now rq, o_updated_at = now rq\<rparr>],
         db_users := update_one (\<lambda>u. u_id u = uk)
            (\<lambda>u. u\<lparr>cart := [], updated_at := now rq,
                    orders := orders user @ [inserted_id rq]\<rparr>)
            (db_users db)\<rparr>)"
  using assms
  by (simp add: checkout_mongo_def order_loop_char py_sum_def Let_def insert_one_def
      update_one_twice item_total_resolved)

lemma checkout_mongo_success_cases:
  assumes "checkout_mongo R rq uid data db = (Success st reply, db')"
  obtains uk user where "ObjectId R uid = Some uk"
    and "find_one (\<lambda>u. u_id u = uk) (db_users db) = Some user"
    and "cart user \<noteq> []" and "well_formed_ids R (cart user)"
  using assms
  by (auto simp: checkout_mongo_def order_loop_char split: option.splits if_splits)

lemma order_loop_pg_char:
  "order_loop_pg R db lines acc its =
     (if list_all (\<lambda>i. item_product db i \<noteq> None) lines
      then Inr (foldl (num_add R) acc (line_totals R (resolved_items_pg R db lines)),
                its @ resolved_items_pg R db lines)
      else Inl AttributeError)"
proof (induction lines arbitrary: acc its)
  case Nil
  show ?case by (simp add: resolved_items_pg_def line_totals_def)
next
  case (Cons i lines)
  show ?case
  proof (cases "item_product db i")
    case None
    then show ?thesis by simp
  next
    case (Some p)
    with Cons show ?thesis
      by (simp add: resolved_items_pg_def line_totals_def snapshot_pg_def Let_def)
  qed
qed

lemma user_cart_cases:
  assumes "user_cart R db uid = Some lines"
  obtains uk user where "ObjectId R uid = Some uk"
    and "find_one (\<lambda>u. u_id u = uk) (db_users db) = Some user" and "cart user = lines"
  using assms by (auto simp: user_cart_def split: option.splits)

lemma resolved_items_none:
  "list_all (\<lambda>l. resolve_line R ps l = None) lines \<Longrightarrow> resolved_items R ps lines = []"
  by (induction lines) (simp_all add: resolved_items_def)

lemma checkout_mongo_state:
  assumes "user_cart R db uid = Some lines" and "lines \<noteq> []" and "well_formed_ids R lines"
  shows "\<exists>db' ord refs.
           checkout_mongo R rq uid data db =
             (Success 200
                \<lparr>r_order_id = order_code rq, order_number = inserted_id rq,
                 r_total = py_sum R (line_totals R (resolved_items R (db_products db) lines)),
                 items_count = length (resolved_items R (db_products db) lines)\<rparr>, db')
           \<and> db_orders db' = db_orders db @ [ord]
           \<and> o_id ord = inserted_id rq
           \<and> items ord = resolved_items R (db_products db) lines
           \<and> total_usd ord = py_sum R (line_totals R (resolved_items R (db_products db) lines))
           \<and> user_cart R db' uid = Some []
           \<and> user_order_refs R db uid = Some refs
           \<and> user_order_refs R db' uid = Some (refs @ [inserted_id rq])"
proof -
  from assms(1) obtain uk user where uk: "ObjectId R uid = Some uk"
    and user: "find_one (\<lambda>u. u_id u = uk) (db_users db) = Some user"
    and c: "cart user = lines"
    by (rule user_cart_cases)
  from assms c have ne: "cart user \<noteq> []" and wf: "well_formed_ids R (cart user)" by simp_all
  note run = checkout_mongo_run [OF uk user ne wf, of rq data]
  show ?thesis
    unfolding run
    by (simp add: user_cart_def user_order_refs_def uk user find_one_update_one c)
qed

lemma checkout_mongo_post:
  assumes "checkout_mongo R rq uid data db = (Success st reply, db')"
  shows "\<exists>lines. user_cart R db uid = Some lines \<and> lines \<noteq> [] \<and>
           (\<exists>ord. db_orders db' = db_orders db @ [ord] \<and>
                  items ord = resolved_items R (db_products db) lines \<and>
                  total_usd ord = py_sum R (line_totals R (items ord)) \<and>
                  (\<exists>refs. user_order_refs R db' uid = Some refs \<and> o_id ord \<in> set refs)) \<and>
           user_cart R db' uid = Some []"
proof -
  from assms obtain uk user where uk: "ObjectId R uid = Some uk"
    and user: "find_one (\<lambda>u. u_id u = uk) (db_users db) = Some user"
    and ne: "cart user \<noteq> []" and wf: "well_formed_ids R (cart user)"
    by (rule checkout_mongo_success_cases)
  have c: "user_cart R db uid = Some (cart user)"
    by (simp add: user_cart_def uk user)
  from checkout_mongo_state [OF c ne wf, of rq data] assms c ne
  show ?thesis by auto
qed

lemma checkout_pg_post:
  assumes "checkout_pg R rq n data db = (Success st reply, db')"
  shows "cart_pg db n \<noteq> [] \<and>
         (\<exists>ord. t_orders db' = t_orders db @ [ord] \<and>
                ord_items ord = resolved_items_pg R db (cart_pg db n) \<and>
                ord_total_usd ord = py_sum R (line_totals R (ord_items ord)) \<and>
                ord \<in> set (user_orders_pg db' n)) \<and>
         cart_pg db' n = []"
  using assms
  by (auto simp: checkout_pg_def cart_pg_def order_loop_pg_char py_sum_def Let_def
      insert_one_def user_orders_pg_def split: if_splits)

subsection \<open>Evaluation of the examples\<close>

lemma example_ids:
  "ObjectId example_runtime ''65a000000000000000000010'' = Some ''65a000000000000000000010''"
  "ObjectId example_runtime ''65a000000000000000000001'' = Some ''65a000000000000000000001''"
  "ObjectId example_runtime ''65a000000000000000000002'' = Some ''65a000000000000000000002''"
  "ObjectId example_runtime ''65a000000000000000000003'' = Some ''65a000000000000000000003''"
  by (simp_all add: example_runtime_def hex_oid_def is_hex_def lower_char_def)

lemma example_user_cart:
  "user_cart example_runtime (example_db lines) ''65a000000000000000000010'' = Some lines"
  by (simp add: user_cart_def example_ids example_db_def customer_def find_one_def)

lemma example_user_order_refs:
  "user_order_refs example_runtime (example_db lines) ''65a000000000000000000010'' = Some []"
  by (simp add: user_order_refs_def example_ids example_db_def customer_def find_one_def)

lemma example_resolve:
  "resolve_line example_runtime (db_products (example_db lines)) line_a = Some product_a"
  "resolve_line example_runtime (db_products (example_db lines)) line_b = Some product_b"
  "resolve_line example_runtime (db_products (example_db lines)) line_gone = None"
  by (simp_all add: resolve_line_def line_a_def line_b_def line_gone_def example_ids
      example_db_def product_a_def product_b_def find_one_def)

lemma example_well_formed:
  "well_formed_ids example_runtime [line_a, line_gone, line_b]"
  "well_formed_ids example_runtime [line_gone]"
  by (simp_all add: well_formed_ids_def line_a_def line_b_def line_gone_def example_ids)

lemma example_checkout_pg:
  "\<exists>reply db'. checkout_pg example_runtime example_request 1 empty_body
      (example_pg [pg_line_a, pg_line_b]) = (Success 200 reply, db')"
  by (simp add: checkout_pg_def example_pg_def pg_line_a_def pg_line_b_def
      order_loop_pg_char item_product_def find_one_def pg_customer_def Let_def)




subsection \<open>Cart operations\<close>

lemma bump_line_merge:
  "(case bump_line pid q lines of
      (c, found) \<Rightarrow>
        if \<not> found then c @ [\<lparr>product_id = pid, quantity = q, added_at = t\<rparr>] else c)
   = merge_line pid q t lines"
  by (induction lines) (auto split: prod.splits)



lemma well_formed_merge_line:
  "well_formed_ids R lines \<Longrightarrow> ObjectId R pid \<noteq> None \<Longrightarrow>
     well_formed_ids R (merge_line pid q t lines)"
  by (induction lines) (auto simp: well_formed_ids_def)

lemma add_to_cart_mongo_state:
  assumes "user_cart R db uid = Some lines"
    and "body_product_id data = Some pid" and "pid \<noteq> []"
    and "body_quantity data = Some q" and "q \<noteq> 0"
    and "ObjectId R pid = Some pk"
    and "find_one (\<lambda>p. p_id p = pk) (db_products db) = Some p"
    and "storable_cart (merge_line pid q (now rq) lines)"
  shows "\<exists>db'. add_to_cart_mongo R rq uid data db =
            (Success 200 (length (merge_line pid q (now rq) lines)), db')
          \<and> user_cart R db' uid = Some (merge_line pid q (now rq) lines)
          \<and> user_updated_at R db' uid = Some (now rq)
          \<and> db_products db' = db_products db \<and> db_orders db' = db_orders db"
proof -
  from assms(1) obtain uk user where uk: "ObjectId R uid = Some uk"
    and user: "find_one (\<lambda>u. u_id u = uk) (db_users db) = Some user"
    and c: "cart user = lines"
    by (rule user_cart_cases)
  obtain c1 found where b: "bump_line pid q lines = (c1, found)"
    by (cases "bump_line pid q lines")
  have m: "(if \<not> found then c1 @ [\<lparr>product_id = pid, quantity = q, added_at = now rq\<rparr>]
            else c1) = merge_line pid q (now rq) lines"
    using bump_line_merge [of pid q "now rq" lines] b by simp
  show ?thesis
    using assms(2-8) m
    by (simp add: add_to_cart_mongo_def uk user c b Let_def user_cart_def
        user_updated_at_def find_one_update_one del: merge_line.simps)
qed

lemma add_to_cart_mongo_overflow:
  assumes "user_cart R db uid = Some lines"
    and "body_product_id data = Some pid" and "pid \<noteq> []"
    and "body_quantity data = Some q" and "q \<noteq> 0"
    and "ObjectId R pid = Some pk"
    and "find_one (\<lambda>p. p_id p = pk) (db_products db) = Some p"
    and "\<not> storable_cart (merge_line pid q (now rq) lines)"
  shows "add_to_cart_mongo R rq uid data db = (Failure 500 ''OverflowError'', db)"
proof -
  from assms(1) obtain uk user where uk: "ObjectId R uid = Some uk"
    and user: "find_one (\<lambda>u. u_id u = uk) (db_users db) = Some user"
    and c: "cart user = lines"
    by (rule user_cart_cases)
  obtain c1 found where b: "bump_line pid q lines = (c1, found)"
    by (cases "bump_line pid q lines")
  have m: "(if \<not> found then c1 @ [\<lparr>product_id = pid, quantity = q, added_at = now rq\<rparr>]
            else c1) = merge_line pid q (now rq) lines"
    using bump_line_merge [of pid q "now rq" lines] b by simp
  show ?thesis
    using assms(2-8) m
    by (simp add: add_to_cart_mongo_def uk user c b Let_def del: merge_line.simps)
qed

lemma add_to_cart_mongo_success_cases:
  assumes "add_to_cart_mongo R rq uid data db = (Success st n, db')"
  obtains lines pid q pk p where "user_cart R db uid = Some lines"
    and "body_product_id data = Some pid" and "pid \<noteq> []"
    and "body_quantity data = Some q" and "q \<noteq> 0"
    and "ObjectId R pid = Some pk"
    and "find_one (\<lambda>p. p_id p = pk) (db_products db) = Some p"
    and "storable_cart (merge_line pid q (now rq) lines)"
proof -
  from assms obtain lines pid q pk p where c: "user_cart R db uid = Some lines"
    and f: "body_product_id data = Some pid" "pid \<noteq> []"
      "body_quantity data = Some q" "q \<noteq> 0"
      "ObjectId R pid = Some pk"
      "find_one (\<lambda>p. p_id p = pk) (db_products db) = Some p"
    by (auto simp: add_to_cart_mongo_def user_cart_def
        split: option.splits if_splits prod.splits)
  have "storable_cart (merge_line pid q (now rq) lines)"
  proof (rule ccontr)
    assume "\<not> storable_cart (merge_line pid q (now rq) lines)"
    from add_to_cart_mongo_overflow [OF c f this] assms show False by simp
  qed
  with c f show ?thesis by (rule that)
qed

lemma remove_from_cart_mongo_state:
  assumes "user_cart R db uid = Some lines"
  shows "\<exists>db'. remove_from_cart_mongo R rq uid pid db =
            (Success 200 (length (filter (\<lambda>l. product_id l \<noteq> pid) lines)), db')
          \<and> user_cart R db' uid = Some (filter (\<lambda>l. product_id l \<noteq> pid) lines)
          \<and> user_updated_at R db' uid = Some (now rq)
          \<and> db_products db' = db_products db \<and> db_orders db' = db_orders db"
proof -
  from assms(1) obtain uk user where uk: "ObjectId R uid = Some uk"
    and user: "find_one (\<lambda>u. u_id u = uk) (db_users db) = Some user"
    and c: "cart user = lines"
    by (rule user_cart_cases)
  show ?thesis
    by (simp add: remove_from_cart_mongo_def uk user c Let_def user_cart_def
        user_updated_at_def find_one_update_one)
qed

lemma remove_from_cart_mongo_success_cases:
  assumes "remove_from_cart_mongo R rq uid pid db = (Success st n, db')"
  obtains lines where "user_cart R db uid = Some lines"
  using assms
  by (auto simp: remove_from_cart_mongo_def user_cart_def split: option.splits)

lemma find_one_append:
  "find_one P (xs @ ys) = (case find_one P xs of None \<Rightarrow> find_one P ys | Some x \<Rightarrow> Some x)"
  by (induction xs) (simp_all add: find_one_def)

lemma update_one_append_absent:
  "find_one P xs = None \<Longrightarrow> update_one P f (xs @ ys) = xs @ update_one P f ys"
  by (induction xs) (simp_all add: find_one_def split: if_splits)

lemma find_one_None_iff: "find_one P xs = None \<longleftrightarrow> (\<forall>x\<in>set xs. \<not> P x)"
  by (auto simp: find_one_def find_None_iff)

lemma find_one_simps:
  "find_one P [] = None"
  "find_one P (x # xs) = (if P x then Some x else find_one P xs)"
  by (simp_all add: find_one_def)

lemma find_one_SomeD: "find_one P xs = Some x \<Longrightarrow> P x \<and> x \<in> set xs"
  by (auto simp: find_one_def find_Some_iff)

lemma map_update_one_key:
  "(\<And>x. k (f x) = k x) \<Longrightarrow> map k (update_one P f xs) = map k xs"
  by (induction xs) simp_all

lemma merge_row_char:
  "merge_row uid pid q rq rows =
     (case find_one (\<lambda>i. ci_user_id i = uid \<and> ci_product_id i = pid) rows of
        None \<Rightarrow>
          rows @
            [\<lparr>ci_id = inserted_pk rq, ci_user_id = uid, ci_product_id = pid, ci_quantity = q,
              ci_added_at = now rq\<rparr>]
      | Some i \<Rightarrow>
          update_one (\<lambda>i. ci_user_id i = uid \<and> ci_product_id i = pid)
            (\<lambda>i. i\<lparr>ci_quantity := ci_quantity i + q\<rparr>) rows)"
  by (induction rows) (simp_all add: find_one_simps split: option.splits)



lemma add_to_cart_pg_run:
  assumes "find_one (\<lambda>p. prd_id p = pid) (t_products db) = Some p"
    and "find_one (\<lambda>u. usr_id u = n) (t_users db) = Some u"
    and "int4 (cart_quantity_pg db n pid + q)"
  shows "add_to_cart_pg rq n \<lparr>pg_body_product_id = Some pid, pg_body_quantity = Some q\<rparr> db
           = (Success 200 (), db\<lparr>t_cart_items := merge_row n pid q rq (t_cart_items db)\<rparr>)"
proof (cases "find_one (\<lambda>i. ci_user_id i = n \<and> ci_product_id i = pid) (t_cart_items db)")
  case None
  with assms show ?thesis
    by (simp add: add_to_cart_pg_def cart_quantity_pg_def merge_row_char insert_one_def)
next
  case (Some i)
  with assms show ?thesis
    by (simp add: add_to_cart_pg_def cart_quantity_pg_def merge_row_char)
qed

lemma add_to_cart_pg_overflow:
  assumes "find_one (\<lambda>p. prd_id p = pid) (t_products db) = Some p"
    and "\<not> int4 (cart_quantity_pg db n pid + q)"
  shows "add_to_cart_pg rq n \<lparr>pg_body_product_id = Some pid, pg_body_quantity = Some q\<rparr> db
           = (Failure 500 ''DataError'', db)"
proof (cases "find_one (\<lambda>i. ci_user_id i = n \<and> ci_product_id i = pid) (t_cart_items db)")
  case None
  with assms show ?thesis
    by (simp add: add_to_cart_pg_def cart_quantity_pg_def)
next
  case (Some i)
  with assms show ?thesis
    by (simp add: add_to_cart_pg_def cart_quantity_pg_def)
qed




lemma example_find_product_a:
  "find_one (\<lambda>p. p_id p = ''65a000000000000000000001'') (db_products (example_db lines))
     = Some product_a"
  by (simp add: example_db_def product_a_def find_one_simps)

lemma example_pg_rows:
  "find_one (\<lambda>p. prd_id p = 1) (t_products (example_pg lines))
     = Some \<lparr>prd_id = 1, prd_name = ''A'', prd_base_price_usd = 10\<rparr>"
  "find_one (\<lambda>u. usr_id u = 1) (t_users (example_pg lines)) = Some pg_customer"
  by (simp_all add: example_pg_def pg_customer_def find_one_simps)


lemma example_storable:
  "storable_cart [line_b, line_a]"
  "storable_cart (merge_line ''65a000000000000000000001'' q t [line_a]) = bson_int (2 + q)"
  "storable_cart (merge_line ''65a000000000000000000001'' q t []) = bson_int q"
  "storable_cart (merge_line ''65a000000000000000000001'' q t [line_b, line_a])
     = bson_int (2 + q)"
  by (simp_all add: storable_cart_def line_a_def line_b_def bson_int_def)



subsection \<open>Well-formed carts are an invariant of the handlers\<close>

lemma list_all_update_one:
  "list_all Q xs \<Longrightarrow> (\<And>x. x \<in> set xs \<Longrightarrow> P x \<Longrightarrow> Q (f x)) \<Longrightarrow>
     list_all Q (update_one P f xs)"
  by (induction xs) auto

lemma register_mongo_well_formed:
  "carts_well_formed R db \<Longrightarrow> carts_well_formed R (snd (register_mongo rq data db))"
  by (auto simp: carts_well_formed_def register_mongo_def insert_one_def Let_def
      well_formed_ids_def split: option.splits)

lemma add_to_cart_mongo_run:
  assumes "ObjectId R uid = Some uk"
    and "find_one (\<lambda>u. u_id u = uk) (db_users db) = Some user"
    and "body_product_id data = Some pid" and "pid \<noteq> []"
    and "body_quantity data = Some q" and "q \<noteq> 0"
    and "ObjectId R pid = Some pk"
    and "find_one (\<lambda>p. p_id p = pk) (db_products db) = Some p"
    and "storable_cart (merge_line pid q (now rq) (cart user))"
  shows "add_to_cart_mongo R rq uid data db =
           (Success 200 (length (merge_line pid q (now rq) (cart user))),
            db\<lparr>db_users :=
                 update_one (\<lambda>u. u_id u = uk)
                   (\<lambda>u. u\<lparr>cart := merge_line pid q (now rq) (cart user),
                           updated_at := now rq\<rparr>)
                   (db_users db)\<rparr>)"
proof -
  obtain c1 found where b: "bump_line pid q (cart user) = (c1, found)"
    by (cases "bump_line pid q (cart user)")
  have m: "(if \<not> found then c1 @ [\<lparr>product_id = pid, quantity = q, added_at = now rq\<rparr>]
            else c1) = merge_line pid q (now rq) (cart user)"
    using bump_line_merge [of pid q "now rq" "cart user"] b by simp
  show ?thesis
    using assms m
    by (simp add: add_to_cart_mongo_def b Let_def del: merge_line.simps)
qed

lemma add_to_cart_mongo_failure:
  "(\<nexists>n db'. add_to_cart_mongo R rq uid data db = (Success 200 n, db')) \<Longrightarrow>
     snd (add_to_cart_mongo R rq uid data db) = db"
  by (auto simp: add_to_cart_mongo_def Let_def split: option.splits prod.splits if_splits)

lemma add_to_cart_mongo_well_formed:
  assumes "carts_well_formed R db"
  shows "carts_well_formed R (snd (add_to_cart_mongo R rq uid data db))"
proof (cases "\<exists>n db'. add_to_cart_mongo R rq uid data db = (Success 200 n, db')")
  case False
  with assms show ?thesis by (simp add: add_to_cart_mongo_failure)
next
  case True
  then obtain n db' where s: "add_to_cart_mongo R rq uid data db = (Success 200 n, db')"
    by blast
  then obtain lines pid q pk p where c: "user_cart R db uid = Some lines"
    and b: "body_product_id data = Some pid" "pid \<noteq> []"
      "body_quantity data = Some q" "q \<noteq> 0"
    and pk: "ObjectId R pid = Some pk"
    and p: "find_one (\<lambda>p. p_id p = pk) (db_products db) = Some p"
    and st: "storable_cart (merge_line pid q (now rq) lines)"
    by (rule add_to_cart_mongo_success_cases)
  from c obtain uk user where uk: "ObjectId R uid = Some uk"
    and user: "find_one (\<lambda>u. u_id u = uk) (db_users db) = Some user"
    and cu: "cart user = lines"
    by (rule user_cart_cases)
  from st cu have st': "storable_cart (merge_line pid q (now rq) (cart user))" by simp
  from user have "user \<in> set (db_users db)" by (simp add: find_one_SomeD)
  with assms have "well_formed_ids R (cart user)"
    by (simp add: carts_well_formed_def list_all_iff)
  with pk have w: "well_formed_ids R (merge_line pid q (now rq) (cart user))"
    by (simp add: well_formed_merge_line)
  have "list_all (\<lambda>u. well_formed_ids R (cart u))
          (update_one (\<lambda>u. u_id u = uk)
             (\<lambda>u. u\<lparr>cart := merge_line pid q (now rq) (cart user), updated_at := now rq\<rparr>)
             (db_users db))"
    using assms w by (auto intro!: list_all_update_one simp: carts_well_formed_def)
  then show ?thesis
    by (simp add: add_to_cart_mongo_run [OF uk user b pk p st'] carts_well_formed_def)
qed

lemma remove_from_cart_mongo_well_formed:
  assumes "carts_well_formed R db"
  shows "carts_well_formed R (snd (remove_from_cart_mongo R rq uid pid db))"
proof -
  have "list_all (\<lambda>u. well_formed_ids R (cart u))
          (update_one (\<lambda>u. u_id u = uk)
             (\<lambda>u. u\<lparr>cart := filter (\<lambda>item. product_id item \<noteq> pid) (cart user),
                     updated_at := now rq\<rparr>)
             (db_users db))"
    if "find_one (\<lambda>u. u_id u = uk) (db_users db) = Some user" for uk user
  proof (rule list_all_update_one)
    show "list_all (\<lambda>u. well_formed_ids R (cart u)) (db_users db)"
      using assms by (simp add: carts_well_formed_def)
    from that have "user \<in> set (db_users db)" by (simp add: find_one_SomeD)
    with assms have "well_formed_ids R (cart user)"
      by (simp add: carts_well_formed_def list_all_iff)
    then show "well_formed_ids R
        (cart (x\<lparr>cart := filter (\<lambda>item. product_id item \<noteq> pid) (cart user),
                 updated_at := now rq\<rparr>))"
      for x :: user_doc
      by (simp add: well_formed_ids_def list_all_iff)
  qed
  then show ?thesis
    using assms
    by (auto simp: carts_well_formed_def remove_from_cart_mongo_def Let_def
        split: option.splits)
qed

lemma checkout_mongo_well_formed:
  assumes "carts_well_formed R db"
  shows "carts_well_formed R (snd (checkout_mongo R rq uid data db))"
proof -
  have "list_all (\<lambda>u. well_formed_ids R (cart u)) (update_one P f (db_users db))"
    if "\<And>x. cart (f x) = []" for P and f :: "user_doc \<Rightarrow> user_doc"
    using assms that
    by (auto intro!: list_all_update_one simp: carts_well_formed_def well_formed_ids_def)
  then show ?thesis
    using assms
    by (auto simp: carts_well_formed_def checkout_mongo_def Let_def insert_one_def
        update_one_twice split: option.splits sum.splits)
qed

subsection \<open>The foreign keys are an invariant of the relational handlers\<close>



lemma add_to_cart_pg_foreign_keys:
  assumes "foreign_keys db"
  shows "foreign_keys (snd (add_to_cart_pg rq n data db))"
proof -
  have upd: "list_all Q (update_one P (\<lambda>i. i\<lparr>ci_quantity := ci_quantity i + q\<rparr>) rows)"
    if "list_all Q rows" and "\<And>i q'. Q (i\<lparr>ci_quantity := q'\<rparr>) = Q i"
    for Q P q and rows :: "pg_cart_item list"
    using that by (induction rows) auto
  show ?thesis
    using assms
    by (auto simp: foreign_keys_def add_to_cart_pg_def insert_one_def item_product_def
        intro!: upd split: option.splits)
qed

lemma signup_pg_foreign_keys:
  assumes "foreign_keys db"
  shows "foreign_keys (snd (signup_pg R rq data db))"
  using assms
  by (auto simp: foreign_keys_def signup_pg_def insert_one_def item_product_def Let_def
      list_all_iff find_one_append split: option.splits)

lemma checkout_pg_foreign_keys:
  assumes "foreign_keys db"
  shows "foreign_keys (snd (checkout_pg R rq n data db))"
  using assms
  by (auto simp: foreign_keys_def checkout_pg_def insert_one_def item_product_def Let_def
      list_all_iff split: option.splits sum.splits)







subsection \<open>Claims\<close>

text \<open>
  C2. For every base price \<open>p\<close> (in particular every \<open>p \<ge> 0\<close>),
  \<^verbatim>\<open>calculate_prices(p)\<close> raises nothing and returns the dictionary with exactly
  the four keys KES, UGX, BIF and CDF, in which the amount of each currency is
  \<^verbatim>\<open>round(p * rate, 2)\<close> for the rates 128.5, 3582.34, 2850.0 and 2700.0, and
  the symbol and the country of each currency are constants that do not depend
  on \<open>p\<close>. The result is a function of \<open>p\<close> and of Python's arithmetic alone:
  the rounding is the one of the built-in \<^verbatim>\<open>round\<close>, the same at every
  currency.
\<close>

theorem calculate_prices_table:
  "calculate_prices R p = Inr
     [(''KES'', \<lparr>amount = round2 R (num_mul R p (num_lit R 128.5)),
                 symbol = ''KSh'', country = ''Kenya''\<rparr>),
      (''UGX'', \<lparr>amount = round2 R (num_mul R p (num_lit R 3582.34)),
                 symbol = ''USh'', country = ''Uganda''\<rparr>),
      (''BIF'', \<lparr>amount = round2 R (num_mul R p (num_lit R 2850.0)),
                 symbol = ''FBu'', country = ''Burundi''\<rparr>),
      (''CDF'', \<lparr>amount = round2 R (num_mul R p (num_lit R 2700.0)),
                 symbol = ''FC'', country = ''DRC Congo''\<rparr>)]"
  by (simp add: calculate_prices_def exchange_rates_def currency_symbols_def
      country_names_def subscript_def)

text \<open>
  C1. A checkout that succeeds was made on a non-empty cart, and it persists
  one new order whose items are the snapshots (product id, name, quantity, unit
  price, line total) of exactly the cart lines whose product reference resolves
  at checkout time, and whose \<^verbatim>\<open>total_usd\<close> is the sum of unit price times
  quantity over these lines; the cart of the user is empty in the database after
  the request, and the new order is among the order references of that user
  (the list \<^verbatim>\<open>orders\<close> of the user document; the relationship
  \<^verbatim>\<open>user.orders\<close> of the relational edition). Both editions.
\<close>

theorem checkout_persists_order:
  "(checkout_mongo R rq uid data db = (Success st reply, db') \<longrightarrow>
      (\<exists>lines. user_cart R db uid = Some lines \<and> lines \<noteq> [] \<and>
           (\<exists>ord. db_orders db' = db_orders db @ [ord] \<and>
                  items ord = resolved_items R (db_products db) lines \<and>
                  total_usd ord = py_sum R (line_totals R (items ord)) \<and>
                  (\<exists>refs. user_order_refs R db' uid = Some refs \<and> o_id ord \<in> set refs)) \<and>
           user_cart R db' uid = Some []))
   \<and> (checkout_pg R rq n data pdb = (Success st' reply' , pdb') \<longrightarrow>
        cart_pg pdb n \<noteq> [] \<and>
        (\<exists>ord. t_orders pdb' = t_orders pdb @ [ord] \<and>
               ord_items ord = resolved_items_pg R pdb (cart_pg pdb n) \<and>
               ord_total_usd ord = py_sum R (line_totals R (ord_items ord)) \<and>
               ord \<in> set (user_orders_pg pdb' n)) \<and>
        cart_pg pdb' n = [])"
  using checkout_mongo_post [of R rq uid data db st reply db']
    checkout_pg_post [of R rq n data pdb st' reply' pdb']
  by blast

theorem checkout_persists_order_witness:
  "(\<exists>reply db'. checkout_mongo example_runtime example_request ''65a000000000000000000010''
       empty_body (example_db [line_a, line_gone, line_b]) = (Success 200 reply, db') \<and>
       user_cart example_runtime db' ''65a000000000000000000010'' = Some [] \<and>
       (\<exists>ord refs. db_orders db' = [ord] \<and>
          items ord = [snapshot example_runtime line_a product_a,
                       snapshot example_runtime line_b product_b] \<and>
          total_usd ord = 25 \<and>
          user_order_refs example_runtime db' ''65a000000000000000000010'' = Some refs \<and>
          o_id ord \<in> set refs))
   \<and> (\<exists>reply db'. checkout_pg example_runtime example_request 1 empty_body
         (example_pg [pg_line_a, pg_line_b]) = (Success 200 reply, db') \<and>
         cart_pg db' 1 = [] \<and> (\<exists>ord. t_orders db' = [ord] \<and> ord \<in> set (user_orders_pg db' 1)))"
proof -
  obtain r d where m: "checkout_mongo example_runtime example_request
       ''65a000000000000000000010'' empty_body (example_db [line_a, line_gone, line_b])
       = (Success 200 r, d)"
    using checkout_mongo_state [OF example_user_cart _ example_well_formed(1),
        of example_request empty_body]
    by auto
  obtain r' d' where p: "checkout_pg example_runtime example_request 1 empty_body
      (example_pg [pg_line_a, pg_line_b]) = (Success 200 r', d')"
    using example_checkout_pg by blast
  have o: "db_orders (example_db [line_a, line_gone, line_b]) = []"
    by (simp add: example_db_def)
  have o': "t_orders (example_pg [pg_line_a, pg_line_b]) = []"
    by (simp add: example_pg_def)
  have its: "resolved_items example_runtime (db_products (example_db [line_a, line_gone, line_b]))
      [line_a, line_gone, line_b]
      = [snapshot example_runtime line_a product_a, snapshot example_runtime line_b product_b]"
    by (simp add: resolved_items_def example_resolve)
  have tot: "py_sum example_runtime (line_totals example_runtime
      [snapshot example_runtime line_a product_a, snapshot example_runtime line_b product_b]) = 25"
    by (simp add: py_sum_def line_totals_def snapshot_def example_runtime_def line_a_def
        line_b_def product_a_def product_b_def)
  show ?thesis
    using checkout_persists_order [of example_runtime example_request
        "''65a000000000000000000010''" empty_body "example_db [line_a, line_gone, line_b]"
        200 r d 1 "example_pg [pg_line_a, pg_line_b]" 200 r' d'] m p o o' its tot
      example_user_cart [of "[line_a, line_gone, line_b]"]
    by auto
qed

text \<open>
  C3. A checkout of a user whose cart has no line fails with status 400,
  \<^verbatim>\<open>Cart is empty\<close>, and the database after the request is the database
  before it: no order is created and the user record, with its cart, its order
  references and its timestamps, is unchanged. Both editions.
\<close>

theorem checkout_empty_cart:
  "(user_cart R db uid = Some [] \<longrightarrow>
      checkout_mongo R rq uid data db = (Failure 400 ''Cart is empty'', db))
   \<and> (cart_pg pdb n = [] \<longrightarrow>
      checkout_pg R rq n data pdb = (Failure 400 ''Cart is empty'', pdb))"
  by (auto simp: user_cart_def checkout_mongo_def checkout_pg_def cart_pg_def
      split: option.splits)

theorem checkout_empty_cart_witness:
  "user_cart example_runtime (example_db []) ''65a000000000000000000010'' = Some []
   \<and> checkout_mongo example_runtime example_request ''65a000000000000000000010'' empty_body
        (example_db []) = (Failure 400 ''Cart is empty'', example_db [])
   \<and> cart_pg (example_pg []) 1 = []
   \<and> checkout_pg example_runtime example_request 1 empty_body (example_pg [])
        = (Failure 400 ''Cart is empty'', example_pg [])"
proof -
  have p: "cart_pg (example_pg []) 1 = []"
    by (simp add: cart_pg_def example_pg_def)
  from example_user_cart [of "[]"] p
    checkout_empty_cart [of example_runtime "example_db []"
      "''65a000000000000000000010''" example_request empty_body "example_pg []" 1]
  show ?thesis by blast
qed

text \<open>
  C9. Document-store edition: when the cart of the user is not empty and none
  of its lines resolves to a product, checkout does not fail. It answers 200
  with \<^verbatim>\<open>items_count\<close> 0 and total 0 (the int \<^verbatim>\<open>0\<close> the sum starts from),
  persists an order with no items and \<^verbatim>\<open>total_usd\<close> 0, empties the cart and
  appends the id of the order to the order references of the user. The
  references of the cart are well formed, as in every cart that
  \<^verbatim>\<open>add_to_cart\<close> has built.
\<close>

theorem checkout_nothing_resolves:
  assumes "user_cart R db uid = Some lines" and "lines \<noteq> []"
    and "well_formed_ids R lines"
    and "list_all (\<lambda>l. resolve_line R (db_products db) l = None) lines"
  shows "\<exists>db' ord refs.
           checkout_mongo R rq uid data db =
             (Success 200
                \<lparr>r_order_id = order_code rq, order_number = inserted_id rq,
                 r_total = num_int R 0, items_count = 0\<rparr>, db')
           \<and> db_orders db' = db_orders db @ [ord]
           \<and> o_id ord = inserted_id rq \<and> items ord = [] \<and> total_usd ord = num_int R 0
           \<and> user_cart R db' uid = Some []
           \<and> user_order_refs R db uid = Some refs
           \<and> user_order_refs R db' uid = Some (refs @ [inserted_id rq])"
  using checkout_mongo_state [OF assms(1-3), of rq data] resolved_items_none [OF assms(4)]
  by (simp add: py_sum_def line_totals_def)

theorem checkout_nothing_resolves_witness:
  "user_cart example_runtime (example_db [line_gone]) ''65a000000000000000000010''
      = Some [line_gone]
   \<and> well_formed_ids example_runtime [line_gone]
   \<and> list_all (\<lambda>l. resolve_line example_runtime (db_products (example_db [line_gone])) l = None)
        [line_gone]
   \<and> (\<exists>db' ord.
         checkout_mongo example_runtime example_request ''65a000000000000000000010'' empty_body
           (example_db [line_gone]) =
             (Success 200
                \<lparr>r_order_id = order_code example_request,
                 order_number = inserted_id example_request,
                 r_total = 0, items_count = 0\<rparr>, db')
         \<and> db_orders db' = [ord] \<and> items ord = [] \<and> total_usd ord = 0
         \<and> user_cart example_runtime db' ''65a000000000000000000010'' = Some []
         \<and> user_order_refs example_runtime db' ''65a000000000000000000010''
              = Some [''65a000000000000000000099''])"
proof -
  have ne: "[line_gone] \<noteq> []" by simp
  have un: "list_all
      (\<lambda>l. resolve_line example_runtime (db_products (example_db [line_gone])) l = None)
      [line_gone]"
    by (simp add: example_resolve)
  have z: "num_int example_runtime 0 = 0" "db_orders (example_db [line_gone]) = []"
    "inserted_id example_request = ''65a000000000000000000099''"
    by (simp_all add: example_runtime_def example_db_def example_request_def)
  from checkout_nothing_resolves [OF example_user_cart ne example_well_formed(2) un,
      of example_request empty_body]
    example_user_order_refs [of "[line_gone]"] z example_user_cart [of "[line_gone]"]
    example_well_formed(2) un
  show ?thesis by auto
qed






text \<open>
  C7. Document-store edition: \<^verbatim>\<open>remove_from_cart\<close> succeeds for every
  product reference, present in the cart or not, and leaves the cart without
  the lines of that product; a second removal of the same product succeeds too
  and leaves the cart as the first one left it; the removal of a product that
  is not in the cart leaves the cart unchanged. Products and orders are not
  touched.
\<close>

theorem remove_is_idempotent:
  assumes "user_cart R db uid = Some lines"
  shows "\<exists>n1 db1 n2 db2.
           remove_from_cart_mongo R rq1 uid pid db = (Success 200 n1, db1)
         \<and> user_cart R db1 uid = Some (filter (\<lambda>l. product_id l \<noteq> pid) lines)
         \<and> remove_from_cart_mongo R rq2 uid pid db1 = (Success 200 n2, db2)
         \<and> user_cart R db2 uid = user_cart R db1 uid
         \<and> n2 = n1
         \<and> db_products db2 = db_products db \<and> db_orders db2 = db_orders db
         \<and> (pid \<notin> set (map product_id lines) \<longrightarrow> user_cart R db1 uid = Some lines)"
proof -
  let ?rest = "filter (\<lambda>l. product_id l \<noteq> pid) lines"
  from remove_from_cart_mongo_state [OF assms, of rq1 pid]
  obtain db1 where s1: "remove_from_cart_mongo R rq1 uid pid db = (Success 200 (length ?rest), db1)"
    and c1: "user_cart R db1 uid = Some ?rest"
    and k1: "db_products db1 = db_products db" "db_orders db1 = db_orders db"
    by auto
  from remove_from_cart_mongo_state [OF c1, of rq2 pid]
  obtain db2 where s2: "remove_from_cart_mongo R rq2 uid pid db1 = (Success 200 (length ?rest), db2)"
    and c2: "user_cart R db2 uid = Some ?rest"
    and k2: "db_products db2 = db_products db1" "db_orders db2 = db_orders db1"
    by auto
  have "pid \<notin> set (map product_id lines) \<longrightarrow> ?rest = lines"
    by (induction lines) auto
  with s1 c1 s2 c2 k1 k2 show ?thesis by auto
qed

theorem remove_is_idempotent_witness:
  "user_cart example_runtime (example_db [line_a, line_b]) ''65a000000000000000000010''
     = Some [line_a, line_b]
   \<and> (\<exists>n1 db1 n2 db2.
         remove_from_cart_mongo example_runtime example_request ''65a000000000000000000010''
           ''65a000000000000000000001'' (example_db [line_a, line_b]) = (Success 200 n1, db1)
       \<and> user_cart example_runtime db1 ''65a000000000000000000010'' = Some [line_b]
       \<and> remove_from_cart_mongo example_runtime later_request ''65a000000000000000000010''
           ''65a000000000000000000001'' db1 = (Success 200 n2, db2)
       \<and> user_cart example_runtime db2 ''65a000000000000000000010'' = Some [line_b])
   \<and> ''65a000000000000000000003'' \<notin> set (map product_id [line_a, line_b])
   \<and> (\<exists>n1 db1.
         remove_from_cart_mongo example_runtime example_request ''65a000000000000000000010''
           ''65a000000000000000000003'' (example_db [line_a, line_b]) = (Success 200 n1, db1)
       \<and> user_cart example_runtime db1 ''65a000000000000000000010'' = Some [line_a, line_b])"
proof -
  have f: "filter (\<lambda>l. product_id l \<noteq> ''65a000000000000000000001'') [line_a, line_b] = [line_b]"
    "''65a000000000000000000003'' \<notin> set (map product_id [line_a, line_b])"
    by (simp_all add: line_a_def line_b_def)
  note c = example_user_cart [of "[line_a, line_b]"]
  from remove_is_idempotent [OF c, of example_request "''65a000000000000000000001''"
      later_request]
    remove_is_idempotent [OF c, of example_request "''65a000000000000000000003''"
      later_request]
    f example_user_cart [of "[line_a, line_b]"]
  show ?thesis by auto
qed

text \<open>
  C8, as stated, fails in the relational edition: \<^verbatim>\<open>add_to_cart\<close> writes a
  row of \<^verbatim>\<open>cart_items\<close> and never the row of the user, so the
  \<^verbatim>\<open>updated_at\<close> of the user keeps its value (here 1, at a request made at
  time 1000). The relational edition has no route that removes a cart line.
\<close>

theorem add_to_cart_pg_keeps_updated_at:
  "fst (add_to_cart_pg example_request 1 (pg_add_a 3) (example_pg [])) = Success 200 ()
   \<and> t_users (snd (add_to_cart_pg example_request 1 (pg_add_a 3) (example_pg [])))
       = [pg_customer]
   \<and> usr_updated_at pg_customer = 1 \<and> now example_request = 1000"
  by (simp add: add_to_cart_pg_def pg_add_a_def example_pg_def pg_customer_def
      find_one_simps insert_one_def example_request_def int4_def)

text \<open>
  C8, amended. In the document-store edition every cart mutation that succeeds,
  \<^verbatim>\<open>add_to_cart\<close> and \<^verbatim>\<open>remove_from_cart\<close>, sets the \<^verbatim>\<open>updated_at\<close> of
  the owning user to the time of the request. In the relational edition
  \<^verbatim>\<open>add_to_cart\<close> leaves the table of users as it was.
\<close>

theorem cart_mutation_sets_updated_at:
  "(add_to_cart_mongo R rq uid data db = (Success st n, db') \<longrightarrow>
      user_updated_at R db' uid = Some (now rq))
   \<and> (remove_from_cart_mongo R rq uid pid db = (Success st' n', db'') \<longrightarrow>
      user_updated_at R db'' uid = Some (now rq))
   \<and> t_users (snd (add_to_cart_pg rq m pdata pdb)) = t_users pdb"
proof (intro conjI impI)
  assume a: "add_to_cart_mongo R rq uid data db = (Success st n, db')"
  then obtain lines pid' q pk p where "user_cart R db uid = Some lines"
    and "body_product_id data = Some pid'" and "pid' \<noteq> []"
    and "body_quantity data = Some q" and "q \<noteq> 0"
    and "ObjectId R pid' = Some pk"
    and "find_one (\<lambda>p. p_id p = pk) (db_products db) = Some p"
    and "storable_cart (merge_line pid' q (now rq) lines)"
    by (rule add_to_cart_mongo_success_cases)
  from add_to_cart_mongo_state [OF this] a
  show "user_updated_at R db' uid = Some (now rq)" by auto
next
  assume a: "remove_from_cart_mongo R rq uid pid db = (Success st' n', db'')"
  then obtain lines where "user_cart R db uid = Some lines"
    by (rule remove_from_cart_mongo_success_cases)
  from remove_from_cart_mongo_state [OF this, of rq pid] a
  show "user_updated_at R db'' uid = Some (now rq)" by auto
next
  show "t_users (snd (add_to_cart_pg rq m pdata pdb)) = t_users pdb"
    by (simp add: add_to_cart_pg_def split: option.splits)
qed

theorem cart_mutation_sets_updated_at_witness:
  "user_updated_at example_runtime (example_db [line_a]) ''65a000000000000000000010'' = Some 1
   \<and> (\<exists>n db'. add_to_cart_mongo example_runtime example_request ''65a000000000000000000010''
        (add_a 3) (example_db [line_a]) = (Success 200 n, db')
      \<and> user_updated_at example_runtime db' ''65a000000000000000000010'' = Some 1000)
   \<and> (\<exists>n db'. remove_from_cart_mongo example_runtime example_request
        ''65a000000000000000000010'' ''65a000000000000000000001'' (example_db [line_a])
        = (Success 200 n, db')
      \<and> user_updated_at example_runtime db' ''65a000000000000000000010'' = Some 1000)"
proof -
  have t: "user_updated_at example_runtime (example_db [line_a]) ''65a000000000000000000010''
      = Some 1"
    by (simp add: user_updated_at_def example_ids example_db_def customer_def find_one_simps)
  have n: "now example_request = 1000" by (simp add: example_request_def)
  have q: "(3::int) \<noteq> 0" "''65a000000000000000000001'' \<noteq> []"
    "body_product_id (add_a 3) = Some ''65a000000000000000000001''"
    "body_quantity (add_a 3) = Some 3"
    by (simp_all add: add_a_def)
  have s: "storable_cart (merge_line ''65a000000000000000000001'' 3 (now example_request)
      [line_a])"
    by (simp add: example_storable(2) bson_int_def del: merge_line.simps)
  from add_to_cart_mongo_state [OF example_user_cart [of "[line_a]"] q(3) q(2) q(4) q(1)
      example_ids(2) example_find_product_a [of "[line_a]"] s]
  obtain k d where a: "add_to_cart_mongo example_runtime example_request
      ''65a000000000000000000010'' (add_a 3) (example_db [line_a]) = (Success 200 k, d)"
    by auto
  from remove_from_cart_mongo_state [OF example_user_cart [of "[line_a]"],
      of example_request "''65a000000000000000000001''"]
  obtain k' d' where r: "remove_from_cart_mongo example_runtime example_request
        ''65a000000000000000000010'' ''65a000000000000000000001'' (example_db [line_a])
        = (Success 200 k', d')"
    by auto
  from cart_mutation_sets_updated_at [of example_runtime example_request
      "''65a000000000000000000010''" "add_a 3" "example_db [line_a]" 200 k d
      "''65a000000000000000000001''" 200 k' d'] a r t n
  show ?thesis by auto
qed

text \<open>
  C5, as stated, fails on the quantity: no handler compares the quantity with
  zero. The document-store edition tests only that the field is present and
  truthy, so the quantity \<open>-1\<close> of an existing product is accepted and stored;
  the relational edition has no test at all, so even the quantity \<open>0\<close> is
  accepted.
\<close>

theorem add_to_cart_accepts_nonpositive_quantity:
  "fst (add_to_cart_mongo example_runtime example_request ''65a000000000000000000010''
          (add_a (- 1)) (example_db [])) = Success 200 1
   \<and> user_cart example_runtime
        (snd (add_to_cart_mongo example_runtime example_request ''65a000000000000000000010''
                (add_a (- 1)) (example_db [])))
        ''65a000000000000000000010''
      = Some [\<lparr>product_id = ''65a000000000000000000001'', quantity = - 1, added_at = 1000\<rparr>]
   \<and> fst (add_to_cart_pg example_request 1 (pg_add_a 0) (example_pg [])) = Success 200 ()"
proof -
  have q: "(- 1::int) \<noteq> 0" "''65a000000000000000000001'' \<noteq> []"
    "body_product_id (add_a (- 1)) = Some ''65a000000000000000000001''"
    "body_quantity (add_a (- 1)) = Some (- 1)"
    by (simp_all add: add_a_def)
  have s: "storable_cart (merge_line ''65a000000000000000000001'' (- 1) (now example_request)
      [])"
    by (simp add: example_storable(3) bson_int_def del: merge_line.simps)
  from add_to_cart_mongo_state [OF example_user_cart [of "[]"] q(3) q(2) q(4) q(1)
      example_ids(2) example_find_product_a [of "[]"] s]
  have "fst (add_to_cart_mongo example_runtime example_request ''65a000000000000000000010''
          (add_a (- 1)) (example_db [])) = Success 200 1
   \<and> user_cart example_runtime
        (snd (add_to_cart_mongo example_runtime example_request ''65a000000000000000000010''
                (add_a (- 1)) (example_db [])))
        ''65a000000000000000000010''
      = Some [\<lparr>product_id = ''65a000000000000000000001'', quantity = - 1, added_at = 1000\<rparr>]"
    by (auto simp: example_request_def)
  moreover have "fst (add_to_cart_pg example_request 1 (pg_add_a 0) (example_pg []))
      = Success 200 ()"
    by (simp add: add_to_cart_pg_def pg_add_a_def example_pg_def pg_customer_def
        find_one_simps int4_def)
  ultimately show ?thesis by blast
qed

text \<open>
  C5, amended. \<^verbatim>\<open>add_to_cart\<close> answers 404 when the product reference is
  well formed and no product has it (in the document-store edition once the
  fields are present: a missing, empty or zero field is answered first). The
  document-store edition answers 400 when \<^verbatim>\<open>product_id\<close> or \<^verbatim>\<open>quantity\<close>
  is missing, empty or zero; the relational edition has no such answer. With an
  existing product, an existing user and a quantity that is not zero, in
  particular a positive one, the call succeeds in both editions (the relational
  edition asks only for an integer) when the store can hold the quantity that
  the line would have: an integer of 8 bytes in the document store, where the
  whole cart is written again, and of 4 bytes in the column of the relational
  store. When it cannot, the call answers 500 and the cart is as it was.
\<close>

theorem add_to_cart_validation:
  "(body_product_id d1 = Some pid1 \<and> pid1 \<noteq> [] \<and> body_quantity d1 = Some q1 \<and> q1 \<noteq> 0
      \<and> ObjectId R pid1 = Some pk1
      \<and> find_one (\<lambda>p. p_id p = pk1) (db_products db1) = None \<longrightarrow>
      add_to_cart_mongo R rq uid d1 db1 = (Failure 404 ''Product not found'', db1))
   \<and> (body_product_id d2 = None \<or> body_product_id d2 = Some [] \<or> body_quantity d2 = None
      \<or> body_quantity d2 = Some 0 \<longrightarrow>
      add_to_cart_mongo R rq uid d2 db2
        = (Failure 400 ''Product ID and quantity required'', db2))
   \<and> (user_cart R db3 uid = Some lines \<and> body_product_id d3 = Some pid3 \<and> pid3 \<noteq> []
      \<and> body_quantity d3 = Some q3 \<and> q3 \<noteq> 0 \<and> ObjectId R pid3 = Some pk3
      \<and> find_one (\<lambda>p. p_id p = pk3) (db_products db3) = Some p3
      \<and> storable_cart (merge_line pid3 q3 (now rq) lines) \<longrightarrow>
      (\<exists>n db'. add_to_cart_mongo R rq uid d3 db3 = (Success 200 n, db')
         \<and> user_cart R db' uid = Some (merge_line pid3 q3 (now rq) lines)))
   \<and> (user_cart R db4 uid = Some lines4 \<and> body_product_id d4 = Some pid4 \<and> pid4 \<noteq> []
      \<and> body_quantity d4 = Some q4 \<and> q4 \<noteq> 0 \<and> ObjectId R pid4 = Some pk4
      \<and> find_one (\<lambda>p. p_id p = pk4) (db_products db4) = Some p4
      \<and> \<not> storable_cart (merge_line pid4 q4 (now rq) lines4) \<longrightarrow>
      add_to_cart_mongo R rq uid d4 db4 = (Failure 500 ''OverflowError'', db4))
   \<and> (pg_body_product_id e1 = Some k1
      \<and> find_one (\<lambda>p. prd_id p = k1) (t_products pdb1) = None \<longrightarrow>
      add_to_cart_pg rq m e1 pdb1 = (Failure 404 ''Not Found'', pdb1))
   \<and> (find_one (\<lambda>p. prd_id p = k2) (t_products pdb2) = Some pp
      \<and> find_one (\<lambda>u. usr_id u = m) (t_users pdb2) = Some pu
      \<and> int4 (cart_quantity_pg pdb2 m k2 + q) \<longrightarrow>
      add_to_cart_pg rq m \<lparr>pg_body_product_id = Some k2, pg_body_quantity = Some q\<rparr> pdb2
        = (Success 200 (),
           pdb2\<lparr>t_cart_items := merge_row m k2 q rq (t_cart_items pdb2)\<rparr>))
   \<and> (find_one (\<lambda>p. prd_id p = k3) (t_products pdb3) = Some pp3
      \<and> \<not> int4 (cart_quantity_pg pdb3 m k3 + q5) \<longrightarrow>
      add_to_cart_pg rq m \<lparr>pg_body_product_id = Some k3, pg_body_quantity = Some q5\<rparr> pdb3
        = (Failure 500 ''DataError'', pdb3))"
proof -
  have 1: "add_to_cart_mongo R rq uid d1 db1 = (Failure 404 ''Product not found'', db1)"
    if "body_product_id d1 = Some pid1 \<and> pid1 \<noteq> [] \<and> body_quantity d1 = Some q1 \<and> q1 \<noteq> 0
      \<and> ObjectId R pid1 = Some pk1
      \<and> find_one (\<lambda>p. p_id p = pk1) (db_products db1) = None"
    using that by (simp add: add_to_cart_mongo_def)
  have 2: "add_to_cart_mongo R rq uid d2 db2
        = (Failure 400 ''Product ID and quantity required'', db2)"
    if "body_product_id d2 = None \<or> body_product_id d2 = Some [] \<or> body_quantity d2 = None
      \<or> body_quantity d2 = Some 0"
    using that by (auto simp: add_to_cart_mongo_def split: option.splits)
  have 3: "\<exists>n db'. add_to_cart_mongo R rq uid d3 db3 = (Success 200 n, db')
         \<and> user_cart R db' uid = Some (merge_line pid3 q3 (now rq) lines)"
    if a: "user_cart R db3 uid = Some lines \<and> body_product_id d3 = Some pid3 \<and> pid3 \<noteq> []
      \<and> body_quantity d3 = Some q3 \<and> q3 \<noteq> 0 \<and> ObjectId R pid3 = Some pk3
      \<and> find_one (\<lambda>p. p_id p = pk3) (db_products db3) = Some p3
      \<and> storable_cart (merge_line pid3 q3 (now rq) lines)"
  proof -
    from a have "user_cart R db3 uid = Some lines" "body_product_id d3 = Some pid3"
      "pid3 \<noteq> []" "body_quantity d3 = Some q3" "q3 \<noteq> 0" "ObjectId R pid3 = Some pk3"
      "find_one (\<lambda>p. p_id p = pk3) (db_products db3) = Some p3"
      "storable_cart (merge_line pid3 q3 (now rq) lines)"
      by simp_all
    from add_to_cart_mongo_state [OF this] show ?thesis by blast
  qed
  have 4: "add_to_cart_mongo R rq uid d4 db4 = (Failure 500 ''OverflowError'', db4)"
    if a: "user_cart R db4 uid = Some lines4 \<and> body_product_id d4 = Some pid4 \<and> pid4 \<noteq> []
      \<and> body_quantity d4 = Some q4 \<and> q4 \<noteq> 0 \<and> ObjectId R pid4 = Some pk4
      \<and> find_one (\<lambda>p. p_id p = pk4) (db_products db4) = Some p4
      \<and> \<not> storable_cart (merge_line pid4 q4 (now rq) lines4)"
  proof -
    from a have "user_cart R db4 uid = Some lines4" "body_product_id d4 = Some pid4"
      "pid4 \<noteq> []" "body_quantity d4 = Some q4" "q4 \<noteq> 0" "ObjectId R pid4 = Some pk4"
      "find_one (\<lambda>p. p_id p = pk4) (db_products db4) = Some p4"
      "\<not> storable_cart (merge_line pid4 q4 (now rq) lines4)"
      by simp_all
    from add_to_cart_mongo_overflow [OF this] show ?thesis .
  qed
  have 5: "add_to_cart_pg rq m e1 pdb1 = (Failure 404 ''Not Found'', pdb1)"
    if "pg_body_product_id e1 = Some k1
      \<and> find_one (\<lambda>p. prd_id p = k1) (t_products pdb1) = None"
    using that by (simp add: add_to_cart_pg_def)
  have 6: "add_to_cart_pg rq m \<lparr>pg_body_product_id = Some k2, pg_body_quantity = Some q\<rparr> pdb2
        = (Success 200 (),
           pdb2\<lparr>t_cart_items := merge_row m k2 q rq (t_cart_items pdb2)\<rparr>)"
    if "find_one (\<lambda>p. prd_id p = k2) (t_products pdb2) = Some pp
      \<and> find_one (\<lambda>u. usr_id u = m) (t_users pdb2) = Some pu
      \<and> int4 (cart_quantity_pg pdb2 m k2 + q)"
    using that by (intro add_to_cart_pg_run) simp_all
  have 7: "add_to_cart_pg rq m \<lparr>pg_body_product_id = Some k3, pg_body_quantity = Some q5\<rparr> pdb3
        = (Failure 500 ''DataError'', pdb3)"
    if "find_one (\<lambda>p. prd_id p = k3) (t_products pdb3) = Some pp3
      \<and> \<not> int4 (cart_quantity_pg pdb3 m k3 + q5)"
    using that by (intro add_to_cart_pg_overflow) simp_all
  from 1 2 3 4 5 6 7 show ?thesis by blast
qed

theorem add_to_cart_validation_witness:
  "add_to_cart_mongo example_runtime example_request ''65a000000000000000000010'' add_gone
       (example_db []) = (Failure 404 ''Product not found'', example_db [])
   \<and> add_to_cart_mongo example_runtime example_request ''65a000000000000000000010'' (add_a 0)
       (example_db []) = (Failure 400 ''Product ID and quantity required'', example_db [])
   \<and> (\<exists>n db'. add_to_cart_mongo example_runtime example_request ''65a000000000000000000010''
         (add_a 2) (example_db []) = (Success 200 n, db')
       \<and> user_cart example_runtime db' ''65a000000000000000000010''
           = Some [\<lparr>product_id = ''65a000000000000000000001'', quantity = 2,
                    added_at = 1000\<rparr>])
   \<and> add_to_cart_mongo example_runtime example_request ''65a000000000000000000010''
       (add_a 9223372036854775806) (example_db [line_a])
       = (Failure 500 ''OverflowError'', example_db [line_a])
   \<and> add_to_cart_pg example_request 1 pg_add_gone (example_pg [])
       = (Failure 404 ''Not Found'', example_pg [])
   \<and> add_to_cart_pg example_request 1 (pg_add_a 2) (example_pg [])
       = (Success 200 (),
          (example_pg [])\<lparr>t_cart_items :=
             [\<lparr>ci_id = 99, ci_user_id = 1, ci_product_id = 1, ci_quantity = 2,
               ci_added_at = 1000\<rparr>]\<rparr>)
   \<and> add_to_cart_pg example_request 1 (pg_add_a 2147483648) (example_pg [])
       = (Failure 500 ''DataError'', example_pg [])"
proof -
  have g: "body_product_id add_gone = Some ''65a000000000000000000003''"
    "''65a000000000000000000003'' \<noteq> []" "body_quantity add_gone = Some 1" "(1::int) \<noteq> 0"
    "find_one (\<lambda>p. p_id p = ''65a000000000000000000003'') (db_products (example_db [])) = None"
    by (simp_all add: add_gone_def example_db_def product_a_def product_b_def find_one_simps)
  have z: "body_quantity (add_a 0) = Some 0" by (simp add: add_a_def)
  have a: "body_product_id (add_a 2) = Some ''65a000000000000000000001''"
    "''65a000000000000000000001'' \<noteq> []" "body_quantity (add_a 2) = Some 2" "(2::int) \<noteq> 0"
    "merge_line ''65a000000000000000000001'' 2 (now example_request) []
       = [\<lparr>product_id = ''65a000000000000000000001'', quantity = 2, added_at = 1000\<rparr>]"
    by (simp_all add: add_a_def example_request_def)
  have s: "storable_cart (merge_line ''65a000000000000000000001'' 2 (now example_request) [])"
    by (simp add: example_storable(3) bson_int_def del: merge_line.simps)
  have b: "body_product_id (add_a 9223372036854775806) = Some ''65a000000000000000000001''"
    "body_quantity (add_a 9223372036854775806) = Some 9223372036854775806"
    "(9223372036854775806::int) \<noteq> 0"
    by (simp_all add: add_a_def)
  have o: "\<not> storable_cart (merge_line ''65a000000000000000000001'' 9223372036854775806
      (now example_request) [line_a])"
    by (simp add: example_storable(2) bson_int_def del: merge_line.simps)
  have e: "pg_body_product_id pg_add_gone = Some 3"
    "find_one (\<lambda>p. prd_id p = 3) (t_products (example_pg [])) = None"
    "pg_add_a 2 = \<lparr>pg_body_product_id = Some 1, pg_body_quantity = Some 2\<rparr>"
    "pg_add_a 2147483648 = \<lparr>pg_body_product_id = Some 1, pg_body_quantity = Some 2147483648\<rparr>"
    by (simp_all add: pg_add_gone_def pg_add_a_def example_pg_def find_one_simps)
  have q0: "cart_quantity_pg (example_pg []) 1 1 = 0"
    by (simp add: cart_quantity_pg_def example_pg_def find_one_simps)
  have i: "int4 (cart_quantity_pg (example_pg []) 1 1 + 2)"
    "\<not> int4 (cart_quantity_pg (example_pg []) 1 1 + 2147483648)"
    by (simp_all add: q0 int4_def)
  have mr: "merge_row 1 1 2 example_request (t_cart_items (example_pg []))
      = [\<lparr>ci_id = 99, ci_user_id = 1, ci_product_id = 1, ci_quantity = 2,
          ci_added_at = 1000\<rparr>]"
    by (simp add: example_pg_def example_request_def)
  from add_to_cart_validation [where ?d1.0 = add_gone
      and ?pid1.0 = "''65a000000000000000000003''" and ?q1.0 = 1 and R = example_runtime
      and ?pk1.0 = "''65a000000000000000000003''" and ?db1.0 = "example_db []"
      and rq = example_request and uid = "''65a000000000000000000010''"
      and ?d2.0 = "add_a 0" and ?db2.0 = "example_db []"
      and ?db3.0 = "example_db []" and lines = "[]" and ?d3.0 = "add_a 2"
      and ?pid3.0 = "''65a000000000000000000001''" and ?q3.0 = 2
      and ?pk3.0 = "''65a000000000000000000001''" and ?p3.0 = product_a
      and ?db4.0 = "example_db [line_a]" and ?lines4.0 = "[line_a]"
      and ?d4.0 = "add_a 9223372036854775806"
      and ?pid4.0 = "''65a000000000000000000001''" and ?q4.0 = 9223372036854775806
      and ?pk4.0 = "''65a000000000000000000001''" and ?p4.0 = product_a
      and ?e1.0 = pg_add_gone and ?k1.0 = 3 and ?pdb1.0 = "example_pg []" and m = 1
      and ?k2.0 = 1 and q = 2 and ?pdb2.0 = "example_pg []"
      and pp = "\<lparr>prd_id = 1, prd_name = ''A'', prd_base_price_usd = 10\<rparr>"
      and pu = pg_customer
      and ?k3.0 = 1 and ?q5.0 = 2147483648 and ?pdb3.0 = "example_pg []"
      and ?pp3.0 = "\<lparr>prd_id = 1, prd_name = ''A'', prd_base_price_usd = 10\<rparr>"]
    g z a s b o e q0 i mr example_ids(2,4) example_user_cart [of "[]"]
    example_user_cart [of "[line_a]"] example_find_product_a [of "[]"]
    example_find_product_a [of "[line_a]"] example_pg_rows [of "[]"]
  show ?thesis by (simp del: merge_line.simps merge_row.simps)
qed

text \<open>
  C10. The public registration of either edition stores the role
  \<^verbatim>\<open>customer\<close> whatever the request body holds: a registration that succeeds
  appends exactly one user, with role \<^verbatim>\<open>customer\<close> (and the document-store
  edition reports that role), and after any registration request every user of
  the database either was there before or has the role \<^verbatim>\<open>customer\<close>. No field
  of the body, \<^verbatim>\<open>role\<close> included, reaches the role.
\<close>

theorem registration_creates_customers:
  "(register_mongo rq data db = (Success st reply, db') \<longrightarrow>
      r_role (r_user reply) = ''customer''
      \<and> (\<exists>u. db_users db' = db_users db @ [u] \<and> role u = ''customer''))
   \<and> list_all (\<lambda>u. u \<in> set (db_users db) \<or> role u = ''customer'')
        (db_users (snd (register_mongo rq data db)))
   \<and> (signup_pg R rq data pdb = (Success st' reply', pdb') \<longrightarrow>
      (\<exists>u. t_users pdb' = t_users pdb @ [u] \<and> usr_role u = ''customer''))
   \<and> list_all (\<lambda>u. u \<in> set (t_users pdb) \<or> usr_role u = ''customer'')
        (t_users (snd (signup_pg R rq data pdb)))"
proof -
  have 1: "r_role (r_user reply) = ''customer''
      \<and> (\<exists>u. db_users db' = db_users db @ [u] \<and> role u = ''customer'')"
    if "register_mongo rq data db = (Success st reply, db')"
    using that
    by (auto simp: register_mongo_def insert_one_def Let_def split: option.splits if_splits)
  have 2: "list_all (\<lambda>u. u \<in> set (db_users db) \<or> role u = ''customer'')
        (db_users (snd (register_mongo rq data db)))"
    by (auto simp: register_mongo_def insert_one_def Let_def list_all_iff
        split: option.splits)
  have 3: "\<exists>u. t_users pdb' = t_users pdb @ [u] \<and> usr_role u = ''customer''"
    if "signup_pg R rq data pdb = (Success st' reply', pdb')"
    using that
    by (auto simp: signup_pg_def insert_one_def Let_def split: option.splits if_splits)
  have 4: "list_all (\<lambda>u. u \<in> set (t_users pdb) \<or> usr_role u = ''customer'')
        (t_users (snd (signup_pg R rq data pdb)))"
    by (auto simp: signup_pg_def insert_one_def Let_def list_all_iff split: option.splits)
  from 1 2 3 4 show ?thesis by blast
qed

theorem registration_creates_customers_witness:
  "registration ''role'' = Some ''admin''
   \<and> (\<exists>reply db' u. register_mongo example_request registration (example_db [])
         = (Success 201 reply, db')
       \<and> r_role (r_user reply) = ''customer''
       \<and> db_users db' = [customer [], u] \<and> role u = ''customer'')
   \<and> (\<exists>reply db' u. signup_pg example_runtime example_request registration (example_pg [])
         = (Success 201 reply, db')
       \<and> t_users db' = [pg_customer, u] \<and> usr_role u = ''customer'')"
proof -
  have r: "registration ''role'' = Some ''admin''"
    by (simp add: registration_def)
  obtain reply d where m: "register_mongo example_request registration (example_db [])
      = (Success 201 reply, d)"
    by (simp add: register_mongo_def registration_def falsy_def example_db_def customer_def
        find_one_simps Let_def)
  obtain reply' d' where p: "signup_pg example_runtime example_request registration
      (example_pg []) = (Success 201 reply', d')"
    by (simp add: signup_pg_def registration_def example_pg_def pg_customer_def
        find_one_simps Let_def)
  have u: "db_users (example_db []) = [customer []]" "t_users (example_pg []) = [pg_customer]"
    by (simp_all add: example_db_def example_pg_def)
  from registration_creates_customers [of example_request registration "example_db []"
      201 reply d example_runtime "example_pg []" 201 reply' d'] m p r u
  show ?thesis by auto
qed

end
